theory Spec2Isabelle
  imports Main
begin

section \<open>The Puppeteer MCP server (src/mcp-servers/puppeteer/index.ts)\<close>

text \<open>
  A shallow embedding of the class \<open>PuppeteerMcpServer\<close>. The browser-automation engine
  is a black box: every engine primitive the server awaits takes its outcome (a value or
  a thrown exception) from a record of outcomes, one record per request. The server's two
  mutable fields (\<open>session\<close>, \<open>consoleLogs\<close>) are the state; what the server writes to
  stderr and the sequence of engine primitives it invokes are recorded beside them.
  A handler runs to completion before the next event is taken: interleavings at its
  \<open>await\<close>s are not modelled. Timestamps are integers (milliseconds), strings are lists
  of characters, one per code unit of the JavaScript string.
\<close>

subsection \<open>Errors\<close>

datatype ErrorCode = InvalidRequest | MethodNotFound | InternalError

text \<open>
  A thrown JavaScript value. \<open>McpError c msg cause\<close> stands for
  \<open>new McpError(c, `msg${cause}`)\<close>: the interpolated error is kept as a value
  instead of being rendered into the message text.
\<close>

datatype thrown =
    Error string
  | TypeError string
  | McpError ErrorCode string "thrown option"

subsection \<open>Sessions and server state\<close>

type_synonym Page = nat

record Browser =
  handle :: nat
  connected :: bool

record BrowserSession =
  browser :: Browser
  page :: Page
  lastActivity :: int

text \<open>The engine primitives the server can invoke, with the handle they are invoked on.\<close>

datatype engine_call =
    Launch
  | NewPage nat
  | SetUserAgent Page string
  | SetViewport Page nat nat
  | OnConsole Page
  | Goto Page string
  | QuerySelector Page string
  | ElementScreenshot Page string
  | PageScreenshot Page bool
  | ClickOn Page string nat
  | TypeInto Page string string
  | WaitForSelector Page string int
  | Evaluate Page string
  | EvalTextContent Page string
  | EvalBodyText Page
  | BrowserClose nat
  | PageUrl Page
  | PageTitle Page

record PuppeteerMcpServer =
  session :: "BrowserSession option"
  consoleLogs :: "string list"
  stderr :: "(string \<times> thrown option) list"
  engineCalls :: "engine_call list"

definition SESSION_TIMEOUT :: int where
  "SESSION_TIMEOUT = 30 * 60 * 1000"

definition CLEANUP_INTERVAL :: int where
  "CLEANUP_INTERVAL = 60000"

definition initial :: PuppeteerMcpServer where
  "initial = \<lparr>session = None, consoleLogs = [], stderr = [], engineCalls = []\<rparr>"

subsection \<open>The engine's outcomes during one request\<close>

record engine =
  launch :: "thrown + Browser"
  newPage :: "thrown + Page"
  setUserAgent :: "thrown + unit"
  setViewport :: "thrown + unit"
  goto :: "thrown + unit"
  querySelector :: "thrown + bool"
  elementScreenshot :: "thrown + string"
  pageScreenshot :: "thrown + string"
  click :: "thrown + unit"
  typeInto :: "thrown + unit"
  waitForSelector :: "thrown + unit"
  evaluate :: "thrown + string"
  evalTextContent :: "thrown + string"
  evalBodyText :: "thrown + string"
  browserClose :: "thrown + unit"
  pageUrl :: string
  pageTitle :: "thrown + string"
  createdAt :: int
  touchedAt :: int

subsection \<open>Sequencing of fallible, state-changing steps\<close>

type_synonym 'a action = "PuppeteerMcpServer \<Rightarrow> (thrown + 'a) \<times> PuppeteerMcpServer"

definition ret :: "'a \<Rightarrow> 'a action" where
  "ret a s = (Inr a, s)"

definition throw :: "thrown \<Rightarrow> 'a action" where
  "throw err s = (Inl err, s)"

definition andThen :: "'a action \<Rightarrow> ('a \<Rightarrow> 'b action) \<Rightarrow> 'b action" where
  "andThen m k s = (case m s of (Inl err, s') \<Rightarrow> (Inl err, s') | (Inr a, s') \<Rightarrow> k a s')"

definition tryCatch :: "'a action \<Rightarrow> (thrown \<Rightarrow> thrown) \<Rightarrow> 'a action" where
  "tryCatch m h s = (case m s of (Inl err, s') \<Rightarrow> (Inl (h err), s') | (Inr a, s') \<Rightarrow> (Inr a, s'))"

text \<open>Invoking an engine primitive: the call is recorded, its outcome comes from the engine.\<close>

definition invoke :: "engine_call \<Rightarrow> (thrown + 'a) \<Rightarrow> 'a action" where
  "invoke c outcome s = (outcome, s\<lparr>engineCalls := engineCalls s @ [c]\<rparr>)"

definition logError :: "string \<Rightarrow> thrown option \<Rightarrow> PuppeteerMcpServer \<Rightarrow> PuppeteerMcpServer" where
  "logError msg err s = s\<lparr>stderr := stderr s @ [(msg, err)]\<rparr>"

subsection \<open>JavaScript string and array helpers\<close>

definition startsWith :: "string \<Rightarrow> string \<Rightarrow> bool" where
  "startsWith s p = (take (length p) s = p)"

text \<open>\<open>xs.slice(-n)\<close>: the last \<open>n\<close> elements, all of them when there are fewer.\<close>

definition sliceLast :: "nat \<Rightarrow> 'a list \<Rightarrow> 'a list" where
  "sliceLast n xs = drop (length xs - n) xs"

text \<open>\<open>s.substring(0, n)\<close>.\<close>

definition substring0 :: "nat \<Rightarrow> string \<Rightarrow> string" where
  "substring0 n s = take n s"

fun join :: "string \<Rightarrow> string list \<Rightarrow> string" where
  "join sep [] = []"
| "join sep [x] = x"
| "join sep (x # y # ys) = x @ sep @ join sep (y # ys)"

text \<open>Truthiness of an optional string argument: \<open>undefined\<close> and \<open>''\<close> are falsy.\<close>

definition truthy :: "string option \<Rightarrow> bool" where
  "truthy sel = (case sel of None \<Rightarrow> False | Some x \<Rightarrow> x \<noteq> [])"

definition selectorText :: "string option \<Rightarrow> string" where
  "selectorText sel = (case sel of None \<Rightarrow> ''undefined'' | Some x \<Rightarrow> x)"

subsection \<open>The console log buffer\<close>

text \<open>The buffer policy of the console handler: push, then keep only the last 100.\<close>

definition pushLog :: "string list \<Rightarrow> string \<Rightarrow> string list" where
  "pushLog logs logEntry =
     (let logs' = logs @ [logEntry]
      in if length logs' > 100 then sliceLast 100 logs' else logs')"

text \<open>The handler registered with \<open>page.on('console', ...)\<close>.\<close>

definition onConsole :: "string \<Rightarrow> string \<Rightarrow> PuppeteerMcpServer \<Rightarrow> PuppeteerMcpServer" where
  "onConsole ty txt s =
     (let logEntry = ''['' @ ty @ ''] '' @ txt
      in s\<lparr>consoleLogs := pushLog (consoleLogs s) logEntry\<rparr>)"

subsection \<open>Session management\<close>

definition USER_AGENT :: string where
  "USER_AGENT = ''Mozilla/5.0 (Macintosh; Intel Mac OS X 10_15_7) AppleWebKit/537.36 (KHTML, like Gecko) Chrome/120.0.0.0 Safari/537.36''"

definition storeSession :: "engine \<Rightarrow> Browser \<Rightarrow> Page \<Rightarrow> unit action" where
  "storeSession e b p s =
     (Inr (), logError ''Browser session created successfully'' None
        (s\<lparr>session := Some \<lparr>browser = b, page = p, lastActivity = createdAt e\<rparr>\<rparr>))"

definition createBrowserSession :: "engine \<Rightarrow> unit action" where
  "createBrowserSession e =
     tryCatch
       (andThen (invoke Launch (launch e)) (\<lambda>b.
        andThen (invoke (NewPage (handle b)) (newPage e)) (\<lambda>p.
        andThen (invoke (SetUserAgent p USER_AGENT) (setUserAgent e)) (\<lambda>_.
        andThen (invoke (SetViewport p 1280 720) (setViewport e)) (\<lambda>_.
        andThen (invoke (OnConsole p) (Inr ())) (\<lambda>_.
        storeSession e b p))))))
       (\<lambda>err. McpError InternalError ''Failed to create browser session: '' (Some err))"

definition ensureBrowser :: "engine \<Rightarrow> unit action" where
  "ensureBrowser e s =
     (case session s of
        None \<Rightarrow> createBrowserSession e s
      | Some ss \<Rightarrow>
          if \<not> connected (browser ss) then createBrowserSession e s else (Inr (), s))"

definition updateActivity :: "engine \<Rightarrow> unit action" where
  "updateActivity e s =
     (case session s of
        None \<Rightarrow> (Inr (), s)
      | Some ss \<Rightarrow> (Inr (), s\<lparr>session := Some (ss\<lparr>lastActivity := touchedAt e\<rparr>)\<rparr>))"

definition closeBrowser :: "engine \<Rightarrow> PuppeteerMcpServer \<Rightarrow> PuppeteerMcpServer" where
  "closeBrowser e s =
     (case session s of
        None \<Rightarrow> s
      | Some ss \<Rightarrow>
          (let s1 = s\<lparr>engineCalls := engineCalls s @ [BrowserClose (handle (browser ss))]\<rparr>;
               s2 = (case browserClose e of
                       Inl err \<Rightarrow> logError ''Error closing browser:'' (Some err) s1
                     | Inr _ \<Rightarrow> s1)
           in s2\<lparr>session := None, consoleLogs := []\<rparr>))"

text \<open>The body of the \<open>setInterval\<close> callback; \<open>now\<close> is \<open>Date.now()\<close> at the tick.\<close>

definition cleanupTick :: "int \<Rightarrow> engine \<Rightarrow> PuppeteerMcpServer \<Rightarrow> PuppeteerMcpServer" where
  "cleanupTick now e s =
     (case session s of
        None \<Rightarrow> s
      | Some ss \<Rightarrow>
          if now - lastActivity ss > SESSION_TIMEOUT
          then closeBrowser e (logError ''Browser session timed out, closing...'' None s)
          else s)"

text \<open>\<open>this.session!.page\<close>: reading \<open>page\<close> of \<open>null\<close> throws a TypeError.\<close>

definition sessionPage :: "Page action" where
  "sessionPage s =
     (case session s of
        None \<Rightarrow> (Inl (TypeError ''Cannot read properties of null''), s)
      | Some ss \<Rightarrow> (Inr (page ss), s))"

subsection \<open>Tool calls\<close>

text \<open>
  A tool request: the tool name with its arguments, typed as the handler's casts declare
  them. Optional arguments are \<open>option\<close>s; a name outside the catalog is \<open>UnknownTool\<close>.
\<close>

datatype tool_request =
    Navigate string
  | Screenshot "string option" "bool option"
  | Click string
  | TypeText string string "bool option"
  | WaitForElement string "int option"
  | EvaluateJs string
  | GetText "string option"
  | CloseBrowserTool
  | UnknownTool string

datatype content =
    TextContent string
  | ImageContent string string

definition orDefault :: "'a option \<Rightarrow> 'a \<Rightarrow> 'a" where
  "orDefault v d = (case v of None \<Rightarrow> d | Some x \<Rightarrow> x)"

definition navigate :: "engine \<Rightarrow> string \<Rightarrow> content list action" where
  "navigate e url =
     andThen (ensureBrowser e) (\<lambda>_.
     if \<not> startsWith url ''http://'' \<and> \<not> startsWith url ''https://''
     then throw (Error ''URL must start with http:// or https://'')
     else
       andThen sessionPage (\<lambda>p.
       andThen (invoke (Goto p url) (goto e)) (\<lambda>_.
       andThen (updateActivity e) (\<lambda>_.
       ret [TextContent (''Successfully navigated to '' @ url)]))))"

definition screenshot :: "engine \<Rightarrow> string option \<Rightarrow> bool option \<Rightarrow> content list action" where
  "screenshot e selector fullPageArg =
     (let fullPage = orDefault fullPageArg False in
      andThen (ensureBrowser e) (\<lambda>_.
      andThen
        (if truthy selector
         then
           andThen sessionPage (\<lambda>p.
           andThen (invoke (QuerySelector p (selectorText selector)) (querySelector e)) (\<lambda>element.
           if \<not> element
           then throw (Error (''Element not found: '' @ selectorText selector))
           else invoke (ElementScreenshot p (selectorText selector)) (elementScreenshot e)))
         else
           andThen sessionPage (\<lambda>p.
           invoke (PageScreenshot p fullPage) (pageScreenshot e)))
        (\<lambda>shot.
      andThen (updateActivity e) (\<lambda>_.
      ret [ImageContent shot ''image/png'',
           TextContent
             (if truthy selector
              then ''Screenshot taken of element: '' @ selectorText selector
              else ''Screenshot taken of '' @ (if fullPage then ''full page'' else ''viewport''))]))))"

definition clickTool :: "engine \<Rightarrow> string \<Rightarrow> content list action" where
  "clickTool e selector =
     andThen (ensureBrowser e) (\<lambda>_.
     andThen sessionPage (\<lambda>p.
     andThen (invoke (ClickOn p selector 1) (click e)) (\<lambda>_.
     andThen (updateActivity e) (\<lambda>_.
     ret [TextContent (''Successfully clicked element: '' @ selector)]))))"

definition typeTool :: "engine \<Rightarrow> string \<Rightarrow> string \<Rightarrow> bool option \<Rightarrow> content list action" where
  "typeTool e selector txt clearArg =
     (let clear = orDefault clearArg True in
      andThen (ensureBrowser e) (\<lambda>_.
      andThen
        (if clear
         then andThen sessionPage (\<lambda>p. invoke (ClickOn p selector 3) (click e))
         else ret ())
        (\<lambda>_.
      andThen sessionPage (\<lambda>p.
      andThen (invoke (TypeInto p selector txt) (typeInto e)) (\<lambda>_.
      andThen (updateActivity e) (\<lambda>_.
      ret [TextContent (''Successfully typed '' @ [CHR 0x22] @ txt @ [CHR 0x22] @ '' into '' @ selector)]))))))"

definition waitForElement :: "engine \<Rightarrow> string \<Rightarrow> int option \<Rightarrow> content list action" where
  "waitForElement e selector timeoutArg =
     (let timeout = orDefault timeoutArg 5000 in
      andThen (ensureBrowser e) (\<lambda>_.
      andThen sessionPage (\<lambda>p.
      andThen (invoke (WaitForSelector p selector timeout) (waitForSelector e)) (\<lambda>_.
      andThen (updateActivity e) (\<lambda>_.
      ret [TextContent (''Element found: '' @ selector)])))))"

text \<open>The engine's outcome for \<open>evaluate\<close> is the result as \<open>JSON.stringify\<close> renders it.\<close>

definition evaluateJs :: "engine \<Rightarrow> string \<Rightarrow> content list action" where
  "evaluateJs e code =
     andThen (ensureBrowser e) (\<lambda>_.
     andThen sessionPage (\<lambda>p.
     andThen (invoke (Evaluate p code) (evaluate e)) (\<lambda>result.
     andThen (updateActivity e) (\<lambda>_.
     ret [TextContent (''JavaScript executed successfully. Result: '' @ result)]))))"

definition getText :: "engine \<Rightarrow> string option \<Rightarrow> content list action" where
  "getText e selector =
     andThen (ensureBrowser e) (\<lambda>_.
     andThen
       (if truthy selector
        then
          andThen sessionPage (\<lambda>p.
          andThen (invoke (QuerySelector p (selectorText selector)) (querySelector e)) (\<lambda>element.
          if \<not> element
          then throw (Error (''Element not found: '' @ selectorText selector))
          else
            andThen sessionPage (\<lambda>p'.
            invoke (EvalTextContent p' (selectorText selector)) (evalTextContent e))))
        else
          andThen sessionPage (\<lambda>p.
          invoke (EvalBodyText p) (evalBodyText e)))
       (\<lambda>txt.
     andThen (updateActivity e) (\<lambda>_.
     ret [TextContent
            (if truthy selector
             then ''Text from '' @ selectorText selector @ '': '' @ txt
             else ''Page text: '' @ substring0 1000 txt
                    @ (if length txt > 1000 then ''...'' else []))])))"

definition closeBrowserTool :: "engine \<Rightarrow> content list action" where
  "closeBrowserTool e s = (Inr [TextContent ''Browser session closed''], closeBrowser e s)"

text \<open>The CallTool request handler: the \<open>switch\<close> inside the \<open>try\<close>, and its \<open>catch\<close>.\<close>

fun toolBody :: "engine \<Rightarrow> tool_request \<Rightarrow> content list action" where
  "toolBody e (Navigate url) = navigate e url"
| "toolBody e (Screenshot selector fullPage) = screenshot e selector fullPage"
| "toolBody e (Click selector) = clickTool e selector"
| "toolBody e (TypeText selector txt clear) = typeTool e selector txt clear"
| "toolBody e (WaitForElement selector timeout) = waitForElement e selector timeout"
| "toolBody e (EvaluateJs code) = evaluateJs e code"
| "toolBody e (GetText selector) = getText e selector"
| "toolBody e CloseBrowserTool = closeBrowserTool e"
| "toolBody e (UnknownTool name) = throw (McpError MethodNotFound (''Unknown tool: '' @ name) None)"

definition callTool :: "engine \<Rightarrow> tool_request \<Rightarrow> content list action" where
  "callTool e req =
     tryCatch (toolBody e req)
       (\<lambda>err. McpError InternalError ''Tool execution failed: '' (Some err))"

subsection \<open>Resources\<close>

text \<open>
  The text of a resource: plain text, or the JSON object given to \<open>JSON.stringify\<close>
  (kept as a value, fields in order).
\<close>

datatype json = JString string | JBool bool | JObject "(string \<times> json) list"

datatype resource_text = Plain string | JsonText json

record resource_content =
  uri :: string
  mimeType :: string
  contentText :: resource_text

definition resourceCatalog :: "string list" where
  "resourceCatalog = [''puppeteer://console-logs'', ''puppeteer://current-page'']"

definition consoleLogsText :: "string list \<Rightarrow> string" where
  "consoleLogsText logs =
     (let joined = join [CHR 0x0A] logs
      in if joined = [] then ''No console logs available'' else joined)"

definition noSessionJson :: json where
  "noSessionJson = JObject [(''error'', JString ''No browser session active'')]"

definition pageInfoJson :: "string \<Rightarrow> string \<Rightarrow> json" where
  "pageInfoJson url title =
     JObject [(''url'', JString url), (''title'', JString title), (''sessionActive'', JBool True)]"

definition readCurrentPage :: "engine \<Rightarrow> string \<Rightarrow> resource_content list action" where
  "readCurrentPage e u s =
     (case session s of
        None \<Rightarrow>
          (Inr [\<lparr>uri = u, mimeType = ''application/json'', contentText = JsonText noSessionJson\<rparr>], s)
      | Some ss \<Rightarrow>
          (andThen (invoke (PageUrl (page ss)) (Inr (pageUrl e))) (\<lambda>url.
           andThen (invoke (PageTitle (page ss)) (pageTitle e)) (\<lambda>title.
           ret [\<lparr>uri = u, mimeType = ''application/json'',
                 contentText = JsonText (pageInfoJson url title)\<rparr>]))) s)"

definition readBody :: "engine \<Rightarrow> string \<Rightarrow> resource_content list action" where
  "readBody e u =
     (if u = ''puppeteer://console-logs'' then
        (\<lambda>s. (Inr [\<lparr>uri = u, mimeType = ''text/plain'',
                     contentText = Plain (consoleLogsText (consoleLogs s))\<rparr>], s))
      else if u = ''puppeteer://current-page'' then readCurrentPage e u
      else throw (McpError InvalidRequest (''Unknown resource: '' @ u) None))"

definition readResource :: "engine \<Rightarrow> string \<Rightarrow> resource_content list action" where
  "readResource e u =
     tryCatch (readBody e u)
       (\<lambda>err. McpError InternalError (''Failed to read resource '' @ u @ '': '') (Some err))"

subsection \<open>The server as a state machine\<close>

text \<open>
  What can happen to the server: a tool call, a resource read, a console event of the page,
  a tick of the cleanup timer at a given time, the browser's connection dropping, and a
  termination signal.
\<close>

datatype event =
    CallTool engine tool_request
  | ReadResource engine string
  | ConsoleEvent string string
  | Tick int engine
  | Disconnected
  | Signal engine

definition disconnect :: "PuppeteerMcpServer \<Rightarrow> PuppeteerMcpServer" where
  "disconnect s =
     (case session s of
        None \<Rightarrow> s
      | Some ss \<Rightarrow> s\<lparr>session := Some (ss\<lparr>browser := (browser ss)\<lparr>connected := False\<rparr>\<rparr>)\<rparr>)"

fun step :: "PuppeteerMcpServer \<Rightarrow> event \<Rightarrow> PuppeteerMcpServer" where
  "step s (CallTool e req) = snd (callTool e req s)"
| "step s (ReadResource e u) = snd (readResource e u s)"
| "step s (ConsoleEvent ty txt) = onConsole ty txt s"
| "step s (Tick now e) = cleanupTick now e s"
| "step s Disconnected = disconnect s"
| "step s (Signal e) = closeBrowser e s"

definition run :: "event list \<Rightarrow> PuppeteerMcpServer" where
  "run evs = foldl step initial evs"

section \<open>Vocabulary of the properties\<close>

text \<open>
  Predicates on actions and on engine calls used to state the properties, the state a
  successful session creation leaves behind, and a concrete engine whose every primitive
  succeeds, used to exhibit concrete runs.
\<close>

definition keepsLogs :: "'a action \<Rightarrow> bool" where
  "keepsLogs m = (\<forall>s. consoleLogs (snd (m s)) = consoleLogs s)"

fun isSetup :: "engine_call \<Rightarrow> bool" where
  "isSetup Launch = True"
| "isSetup (NewPage b) = True"
| "isSetup (SetUserAgent p u) = True"
| "isSetup (SetViewport p w h) = True"
| "isSetup (OnConsole p) = True"
| "isSetup c = False"

fun onPage :: "engine_call \<Rightarrow> Page option" where
  "onPage Launch = None"
| "onPage (NewPage b) = None"
| "onPage (BrowserClose b) = None"
| "onPage (SetUserAgent p u) = Some p"
| "onPage (SetViewport p w h) = Some p"
| "onPage (OnConsole p) = Some p"
| "onPage (Goto p u) = Some p"
| "onPage (QuerySelector p x) = Some p"
| "onPage (ElementScreenshot p x) = Some p"
| "onPage (PageScreenshot p f) = Some p"
| "onPage (ClickOn p x n) = Some p"
| "onPage (TypeInto p x t) = Some p"
| "onPage (WaitForSelector p x t) = Some p"
| "onPage (Evaluate p c) = Some p"
| "onPage (EvalTextContent p x) = Some p"
| "onPage (EvalBodyText p) = Some p"
| "onPage (PageUrl p) = Some p"
| "onPage (PageTitle p) = Some p"

fun requiresBrowser :: "tool_request \<Rightarrow> bool" where
  "requiresBrowser CloseBrowserTool = False"
| "requiresBrowser (UnknownTool name) = False"
| "requiresBrowser req = True"

definition setupCalls :: "Browser \<Rightarrow> Page \<Rightarrow> engine_call list" where
  "setupCalls b p =
     [Launch, NewPage (handle b), SetUserAgent p USER_AGENT, SetViewport p 1280 720, OnConsole p]"

definition created :: "engine \<Rightarrow> Browser \<Rightarrow> Page \<Rightarrow> PuppeteerMcpServer \<Rightarrow> PuppeteerMcpServer" where
  "created e b p s =
     s\<lparr>session := Some \<lparr>browser = b, page = p, lastActivity = createdAt e\<rparr>,
       stderr := stderr s @ [(''Browser session created successfully'', None)],
       engineCalls := engineCalls s @ setupCalls b p\<rparr>"

definition creationFailed :: "thrown \<Rightarrow> thrown" where
  "creationFailed cause = McpError InternalError ''Failed to create browser session: '' (Some cause)"

definition toolFailed :: "thrown \<Rightarrow> thrown" where
  "toolFailed cause = McpError InternalError ''Tool execution failed: '' (Some cause)"

definition okEngine :: engine where
  "okEngine =
     \<lparr>launch = Inr \<lparr>handle = 7, connected = True\<rparr>, newPage = Inr 3,
      setUserAgent = Inr (), setViewport = Inr (), goto = Inr (),
      querySelector = Inr True, elementScreenshot = Inr ''iVBORw0KGgo='',
      pageScreenshot = Inr ''iVBORw0KGgo='', click = Inr (), typeInto = Inr (),
      waitForSelector = Inr (), evaluate = Inr ''42'', evalTextContent = Inr ''Example Domain'',
      evalBodyText = Inr ''Example Domain'', browserClose = Inr (),
      pageUrl = ''https://example.com/'', pageTitle = Inr ''Example Domain'',
      createdAt = 1000, touchedAt = 2000\<rparr>"

definition urlError :: thrown where
  "urlError = Error ''URL must start with http:// or https://''"

text \<open>Concrete states and a concrete run, used to exhibit the properties.\<close>

definition idleServer :: PuppeteerMcpServer where
  "idleServer =
     \<lparr>session = Some \<lparr>browser = \<lparr>handle = 7, connected = True\<rparr>, page = 3, lastActivity = 0\<rparr>,
      consoleLogs = [''[log] ready''], stderr = [], engineCalls = []\<rparr>"

definition staleServer :: PuppeteerMcpServer where
  "staleServer =
     \<lparr>session = Some \<lparr>browser = \<lparr>handle = 5, connected = False\<rparr>, page = 2, lastActivity = 0\<rparr>,
      consoleLogs = [''[log] ready'', ''[error] boom''], stderr = [], engineCalls = []\<rparr>"

definition hundredLogs :: "string list" where
  "hundredLogs = map (\<lambda>n. replicate (Suc n) CHR ''a'') [0..<100]"

definition targetClosedEngine :: engine where
  "targetClosedEngine = okEngine\<lparr>pageTitle := Inl (Error ''Protocol error: Target closed'')\<rparr>"

definition noLaunchEngine :: engine where
  "noLaunchEngine = okEngine\<lparr>launch := Inl (Error ''Failed to launch the browser process'')\<rparr>"

definition droppedRun :: "event list" where
  "droppedRun = [CallTool okEngine (Navigate ''https://example.com''), Disconnected]"

text \<open>
  What a browser tool does once a session with page \<open>p\<close> is in place: the engine calls it
  makes on that page, in order, and what it throws or returns. Written out tool by tool,
  without the handler's sequencing, to state what a tool call amounts to.
\<close>

fun actionOnPage :: "engine \<Rightarrow> Page \<Rightarrow> tool_request \<Rightarrow> engine_call list \<times> (thrown + content list)" where
  "actionOnPage e p (Navigate url) =
     (if \<not> startsWith url ''http://'' \<and> \<not> startsWith url ''https://''
      then ([], Inl (Error ''URL must start with http:// or https://''))
      else ([Goto p url],
            case goto e of
              Inl err \<Rightarrow> Inl err
            | Inr _ \<Rightarrow> Inr [TextContent (''Successfully navigated to '' @ url)]))"
| "actionOnPage e p (Screenshot selector fullPageArg) =
     (if truthy selector
      then
        (case querySelector e of
           Inl err \<Rightarrow> ([QuerySelector p (selectorText selector)], Inl err)
         | Inr found \<Rightarrow>
             if \<not> found
             then ([QuerySelector p (selectorText selector)],
                   Inl (Error (''Element not found: '' @ selectorText selector)))
             else ([QuerySelector p (selectorText selector),
                    ElementScreenshot p (selectorText selector)],
                   case elementScreenshot e of
                     Inl err \<Rightarrow> Inl err
                   | Inr shot \<Rightarrow>
                       Inr [ImageContent shot ''image/png'',
                            TextContent (''Screenshot taken of element: '' @ selectorText selector)]))
      else ([PageScreenshot p (orDefault fullPageArg False)],
            case pageScreenshot e of
              Inl err \<Rightarrow> Inl err
            | Inr shot \<Rightarrow>
                Inr [ImageContent shot ''image/png'',
                     TextContent (''Screenshot taken of '' @
                       (if orDefault fullPageArg False then ''full page'' else ''viewport''))]))"
| "actionOnPage e p (Click selector) =
     ([ClickOn p selector 1],
      case click e of
        Inl err \<Rightarrow> Inl err
      | Inr _ \<Rightarrow> Inr [TextContent (''Successfully clicked element: '' @ selector)])"
| "actionOnPage e p (TypeText selector txt clearArg) =
     (let typing =
            (case typeInto e of
               Inl err \<Rightarrow> Inl err
             | Inr _ \<Rightarrow>
                 Inr [TextContent (''Successfully typed '' @ [CHR 0x22] @ txt @ [CHR 0x22]
                                    @ '' into '' @ selector)])
      in if orDefault clearArg True
         then (case click e of
                 Inl err \<Rightarrow> ([ClickOn p selector 3], Inl err)
               | Inr _ \<Rightarrow> ([ClickOn p selector 3, TypeInto p selector txt], typing))
         else ([TypeInto p selector txt], typing))"
| "actionOnPage e p (WaitForElement selector timeoutArg) =
     ([WaitForSelector p selector (orDefault timeoutArg 5000)],
      case waitForSelector e of
        Inl err \<Rightarrow> Inl err
      | Inr _ \<Rightarrow> Inr [TextContent (''Element found: '' @ selector)])"
| "actionOnPage e p (EvaluateJs code) =
     ([Evaluate p code],
      case evaluate e of
        Inl err \<Rightarrow> Inl err
      | Inr result \<Rightarrow>
          Inr [TextContent (''JavaScript executed successfully. Result: '' @ result)])"
| "actionOnPage e p (GetText selector) =
     (if truthy selector
      then
        (case querySelector e of
           Inl err \<Rightarrow> ([QuerySelector p (selectorText selector)], Inl err)
         | Inr found \<Rightarrow>
             if \<not> found
             then ([QuerySelector p (selectorText selector)],
                   Inl (Error (''Element not found: '' @ selectorText selector)))
             else ([QuerySelector p (selectorText selector),
                    EvalTextContent p (selectorText selector)],
                   case evalTextContent e of
                     Inl err \<Rightarrow> Inl err
                   | Inr txt \<Rightarrow>
                       Inr [TextContent (''Text from '' @ selectorText selector @ '': '' @ txt)]))
      else ([EvalBodyText p],
            case evalBodyText e of
              Inl err \<Rightarrow> Inl err
            | Inr txt \<Rightarrow>
                Inr [TextContent (''Page text: '' @ substring0 1000 txt
                                   @ (if length txt > 1000 then ''...'' else []))]))"
| "actionOnPage e p CloseBrowserTool = ([], Inr [TextContent ''Browser session closed''])"
| "actionOnPage e p (UnknownTool name) =
     ([], Inl (McpError MethodNotFound (''Unknown tool: '' @ name) None))"

text \<open>The state after a tool's action on the stored session: calls recorded, activity stamped
  when the action succeeded.\<close>

definition afterAction :: "engine \<Rightarrow> tool_request \<Rightarrow> BrowserSession \<Rightarrow> PuppeteerMcpServer \<Rightarrow> PuppeteerMcpServer" where
  "afterAction e req ss s =
     s\<lparr>engineCalls := engineCalls s @ fst (actionOnPage e (page ss) req),
       session := Some (case snd (actionOnPage e (page ss) req) of
                          Inl err \<Rightarrow> ss
                        | Inr result \<Rightarrow> ss\<lparr>lastActivity := touchedAt e\<rparr>)\<rparr>"

section \<open>Auxiliary lemmas\<close>

lemma sliceLast_short: "length xs \<le> n \<Longrightarrow> sliceLast n xs = xs"
  by (simp add: sliceLast_def)

lemma length_sliceLast: "length (sliceLast n xs) = min n (length xs)"
  by (simp add: sliceLast_def)

lemma pushLog_sliceLast: "pushLog logs x = sliceLast 100 (logs @ [x])"
  by (simp add: pushLog_def Let_def sliceLast_def)

lemma length_pushLog: "length (pushLog logs x) \<le> 100"
  by (simp add: pushLog_sliceLast length_sliceLast)

lemma sliceLast_snoc:
  assumes "0 < n"
  shows "sliceLast n (sliceLast n xs @ [x]) = sliceLast n (xs @ [x])"
proof -
  have "Suc (length xs) - (length xs - n + n) + (length xs - n) = Suc (length xs) - n"
    using assms by arith
  then show ?thesis
    using assms by (auto simp: sliceLast_def)
qed

lemma foldl_pushLog: "foldl pushLog [] es = sliceLast 100 es"
proof (induction es rule: rev_induct)
  case Nil
  show ?case by (simp add: sliceLast_def)
next
  case (snoc x xs)
  then show ?case by (simp add: pushLog_sliceLast sliceLast_snoc)
qed

lemma pushLog_full: "length logs = 100 \<Longrightarrow> pushLog logs x = tl logs @ [x]"
  by (cases logs) (auto simp: pushLog_def sliceLast_def)

lemma pushLog_room: "length logs < 100 \<Longrightarrow> pushLog logs x = logs @ [x]"
  by (auto simp: pushLog_def sliceLast_def)

lemma pushLog_last: "last (pushLog logs x) = x"
  by (auto simp: pushLog_def sliceLast_def Let_def)

lemma pushLog_evicts: "length logs = 100 \<Longrightarrow> distinct (logs @ [x]) \<Longrightarrow> hd logs \<notin> set (pushLog logs x)"
  by (cases logs) (auto simp: pushLog_full)

lemma closeBrowser_session: "session (closeBrowser e s) = None"
  by (auto simp: closeBrowser_def logError_def Let_def split: option.splits sum.splits)

lemma closeBrowser_none: "session s = None \<Longrightarrow> closeBrowser e s = s"
  by (simp add: closeBrowser_def)

lemma closeBrowser_idem: "closeBrowser e' (closeBrowser e s) = closeBrowser e s"
  by (simp add: closeBrowser_none closeBrowser_session)

lemma closeBrowser_some: "session s = Some ss \<Longrightarrow>
  consoleLogs (closeBrowser e s) = [] \<and>
  engineCalls (closeBrowser e s) = engineCalls s @ [BrowserClose (handle (browser ss))]"
  by (auto simp: closeBrowser_def logError_def Let_def split: option.splits sum.splits)

lemma closeTool: "callTool e CloseBrowserTool s = (Inr [TextContent ''Browser session closed''], closeBrowser e s)"
  by (simp add: callTool_def tryCatch_def closeBrowserTool_def)

lemma length_closeBrowser_logs: "length (consoleLogs (closeBrowser e s)) \<le> length (consoleLogs s)"
  by (auto simp: closeBrowser_def logError_def Let_def split: option.splits sum.splits)

lemma tick_char: "cleanupTick now e s =
  (if \<exists>ss. session s = Some ss \<and> now - lastActivity ss > SESSION_TIMEOUT
   then closeBrowser e (logError ''Browser session timed out, closing...'' None s) else s)"
  by (auto simp: cleanupTick_def split: option.splits)

lemma read_unknown: "u \<notin> set resourceCatalog \<Longrightarrow>
  readResource e u s = (Inl (McpError InternalError (''Failed to read resource '' @ u @ '': '')
     (Some (McpError InvalidRequest (''Unknown resource: '' @ u) None))), s)"
  by (auto simp: readResource_def readBody_def tryCatch_def throw_def resourceCatalog_def)

lemma keepsLogs_ret: "keepsLogs (ret a)"
  by (simp add: keepsLogs_def ret_def)

lemma keepsLogs_throw: "keepsLogs (throw err)"
  by (simp add: keepsLogs_def throw_def)

lemma keepsLogs_invoke: "keepsLogs (invoke c r)"
  by (simp add: keepsLogs_def invoke_def)

lemma keepsLogs_sessionPage: "keepsLogs sessionPage"
  by (simp add: keepsLogs_def sessionPage_def split: option.splits)

lemma keepsLogs_updateActivity: "keepsLogs (updateActivity e)"
  by (simp add: keepsLogs_def updateActivity_def split: option.splits)

lemma keepsLogs_storeSession: "keepsLogs (storeSession e b p)"
  by (simp add: keepsLogs_def storeSession_def logError_def)

lemma keepsLogs_andThen:
  assumes "keepsLogs m" and "\<And>a. keepsLogs (k a)"
  shows "keepsLogs (andThen m k)"
  unfolding keepsLogs_def
proof
  fix s
  obtain r s1 where ms: "m s = (r, s1)" by (cases "m s")
  with assms(1) have l1: "consoleLogs s1 = consoleLogs s"
    by (auto simp: keepsLogs_def dest: spec [of _ s])
  show "consoleLogs (snd (andThen m k s)) = consoleLogs s"
  proof (cases r)
    case (Inl err)
    with ms l1 show ?thesis by (simp add: andThen_def)
  next
    case (Inr a)
    from assms(2) [of a] have "consoleLogs (snd (k a s1)) = consoleLogs s1"
      by (simp add: keepsLogs_def)
    with ms l1 Inr show ?thesis by (simp add: andThen_def)
  qed
qed

lemma keepsLogs_tryCatch:
  assumes "keepsLogs m"
  shows "keepsLogs (tryCatch m h)"
  unfolding keepsLogs_def
proof
  fix s
  obtain r s1 where ms: "m s = (r, s1)" by (cases "m s")
  with assms have "consoleLogs s1 = consoleLogs s"
    by (auto simp: keepsLogs_def dest: spec [of _ s])
  with ms show "consoleLogs (snd (tryCatch m h s)) = consoleLogs s"
    by (cases r) (simp_all add: tryCatch_def)
qed

lemma keepsLogs_if: "keepsLogs m \<Longrightarrow> keepsLogs n \<Longrightarrow> keepsLogs (if c then m else n)"
  by simp

lemmas keepsLogs_intros =
  keepsLogs_ret keepsLogs_throw keepsLogs_invoke keepsLogs_sessionPage keepsLogs_updateActivity
  keepsLogs_storeSession keepsLogs_andThen keepsLogs_tryCatch keepsLogs_if

lemma keepsLogs_createBrowserSession: "keepsLogs (createBrowserSession e)"
  unfolding createBrowserSession_def by (intro keepsLogs_intros)

lemma keepsLogs_ensureBrowser: "keepsLogs (ensureBrowser e)"
  using keepsLogs_createBrowserSession [of e]
  by (auto simp: keepsLogs_def ensureBrowser_def split: option.splits)

lemmas keepsLogs_tools = keepsLogs_intros keepsLogs_ensureBrowser

lemma keepsLogs_navigate: "keepsLogs (navigate e url)"
  unfolding navigate_def by (intro keepsLogs_tools)

lemma keepsLogs_screenshot: "keepsLogs (screenshot e sel fp)"
  unfolding screenshot_def Let_def by (intro keepsLogs_tools)

lemma keepsLogs_clickTool: "keepsLogs (clickTool e sel)"
  unfolding clickTool_def by (intro keepsLogs_tools)

lemma keepsLogs_typeTool: "keepsLogs (typeTool e sel txt c)"
  unfolding typeTool_def Let_def by (intro keepsLogs_tools)

lemma keepsLogs_waitForElement: "keepsLogs (waitForElement e sel t)"
  unfolding waitForElement_def Let_def by (intro keepsLogs_tools)

lemma keepsLogs_evaluateJs: "keepsLogs (evaluateJs e code)"
  unfolding evaluateJs_def by (intro keepsLogs_tools)

lemma keepsLogs_getText: "keepsLogs (getText e sel)"
  unfolding getText_def by (intro keepsLogs_tools)

lemma callTool_logs:
  "consoleLogs (snd (callTool e req s)) = consoleLogs s \<or> consoleLogs (snd (callTool e req s)) = []"
proof (cases "req = CloseBrowserTool")
  case True
  then show ?thesis
    by (cases "session s") (auto simp: closeTool closeBrowser_none dest: closeBrowser_some)
next
  case False
  then have "keepsLogs (toolBody e req)"
    by (cases req)
       (simp_all add: keepsLogs_navigate keepsLogs_screenshot keepsLogs_clickTool
          keepsLogs_typeTool keepsLogs_waitForElement keepsLogs_evaluateJs keepsLogs_getText
          keepsLogs_throw)
  then have "keepsLogs (callTool e req)"
    unfolding callTool_def by (rule keepsLogs_tryCatch)
  then show ?thesis by (simp add: keepsLogs_def)
qed

lemma keepsLogs_readResource: "keepsLogs (readResource e u)"
proof -
  have "keepsLogs (readCurrentPage e u)"
    unfolding keepsLogs_def
  proof
    fix s
    show "consoleLogs (snd (readCurrentPage e u s)) = consoleLogs s"
    proof (cases "session s")
      case None
      then show ?thesis by (simp add: readCurrentPage_def)
    next
      case (Some ss)
      have "keepsLogs (andThen (invoke (PageUrl (page ss)) (Inr (pageUrl e))) (\<lambda>url.
           andThen (invoke (PageTitle (page ss)) (pageTitle e)) (\<lambda>title.
           ret [\<lparr>uri = u, mimeType = ''application/json'',
                 contentText = JsonText (pageInfoJson url title)\<rparr>])))"
        by (intro keepsLogs_intros)
      with Some show ?thesis by (simp add: readCurrentPage_def keepsLogs_def)
    qed
  qed
  moreover have "keepsLogs (\<lambda>s. (Inr [\<lparr>uri = u, mimeType = ''text/plain'',
                     contentText = Plain (consoleLogsText (consoleLogs s))\<rparr>], s))"
    by (simp add: keepsLogs_def)
  ultimately have "keepsLogs (readBody e u)"
    unfolding readBody_def by (intro keepsLogs_if keepsLogs_throw)
  then show ?thesis unfolding readResource_def by (rule keepsLogs_tryCatch)
qed

lemma step_logs_bounded:
  "length (consoleLogs s) \<le> 100 \<Longrightarrow> length (consoleLogs (step s ev)) \<le> 100"
proof (cases ev)
  case (CallTool e req)
  assume "length (consoleLogs s) \<le> 100"
  with callTool_logs [of e req s] CallTool show ?thesis by auto
next
  case (ReadResource e u)
  assume "length (consoleLogs s) \<le> 100"
  with keepsLogs_readResource [of e u] ReadResource show ?thesis by (simp add: keepsLogs_def)
next
  case (ConsoleEvent ty msg)
  then show ?thesis by (simp add: onConsole_def length_pushLog)
next
  case (Tick now e)
  assume "length (consoleLogs s) \<le> 100"
  with Tick length_closeBrowser_logs [of e "logError ''Browser session timed out, closing...'' None s"]
  show ?thesis by (auto simp: tick_char logError_def)
next
  case Disconnected
  assume "length (consoleLogs s) \<le> 100"
  with Disconnected show ?thesis by (simp add: disconnect_def split: option.splits)
next
  case (Signal e)
  assume "length (consoleLogs s) \<le> 100"
  with Signal length_closeBrowser_logs [of e s] show ?thesis by simp
qed

lemma foldl_step_logs_bounded:
  "length (consoleLogs s) \<le> 100 \<Longrightarrow> length (consoleLogs (foldl step s evs)) \<le> 100"
  by (induction evs arbitrary: s) (simp_all add: step_logs_bounded)

lemma run_logs_bounded: "length (consoleLogs (run evs)) \<le> 100"
  unfolding run_def by (rule foldl_step_logs_bounded) (simp add: initial_def)

lemma createBrowserSession_ok:
  assumes "launch e = Inr b" "newPage e = Inr p" "setUserAgent e = Inr ()" "setViewport e = Inr ()"
  shows "createBrowserSession e s = (Inr (), created e b p s)"
  using assms
  by (simp add: createBrowserSession_def tryCatch_def andThen_def invoke_def storeSession_def
      logError_def created_def setupCalls_def)

lemma createBrowserSession_cases:
  "(\<exists>b p. launch e = Inr b \<and> newPage e = Inr p \<and> setUserAgent e = Inr () \<and> setViewport e = Inr ()
       \<and> createBrowserSession e s = (Inr (), created e b p s))
   \<or> (\<exists>cause new. createBrowserSession e s
          = (Inl (creationFailed cause), s\<lparr>engineCalls := engineCalls s @ Launch # new\<rparr>)
        \<and> list_all isSetup new)"
proof (cases "launch e")
  case (Inl c)
  then have "createBrowserSession e s = (Inl (creationFailed c), s\<lparr>engineCalls := engineCalls s @ [Launch]\<rparr>)"
    by (simp add: createBrowserSession_def tryCatch_def andThen_def invoke_def creationFailed_def)
  then show ?thesis by (intro disjI2 exI [of _ c] exI [of _ "[]"]) simp
next
  case b: (Inr b)
  show ?thesis
  proof (cases "newPage e")
    case (Inl c)
    with b have "createBrowserSession e s
        = (Inl (creationFailed c), s\<lparr>engineCalls := engineCalls s @ [Launch, NewPage (handle b)]\<rparr>)"
      by (simp add: createBrowserSession_def tryCatch_def andThen_def invoke_def creationFailed_def)
    then show ?thesis
      by (intro disjI2 exI [of _ c] exI [of _ "[NewPage (handle b)]"]) simp
  next
    case p: (Inr p)
    show ?thesis
    proof (cases "setUserAgent e")
      case (Inl c)
      with b p have "createBrowserSession e s
          = (Inl (creationFailed c),
             s\<lparr>engineCalls := engineCalls s @ [Launch, NewPage (handle b), SetUserAgent p USER_AGENT]\<rparr>)"
        by (simp add: createBrowserSession_def tryCatch_def andThen_def invoke_def creationFailed_def)
      then show ?thesis
        by (intro disjI2 exI [of _ c]
              exI [of _ "[NewPage (handle b), SetUserAgent p USER_AGENT]"]) simp
    next
      case ua: (Inr u)
      show ?thesis
      proof (cases "setViewport e")
        case (Inl c)
        with b p ua have "createBrowserSession e s
            = (Inl (creationFailed c),
               s\<lparr>engineCalls := engineCalls s @
                  [Launch, NewPage (handle b), SetUserAgent p USER_AGENT, SetViewport p 1280 720]\<rparr>)"
          by (simp add: createBrowserSession_def tryCatch_def andThen_def invoke_def creationFailed_def)
        then show ?thesis
          by (intro disjI2 exI [of _ c]
                exI [of _ "[NewPage (handle b), SetUserAgent p USER_AGENT, SetViewport p 1280 720]"])
             simp
      next
        case (Inr v)
        with b p ua show ?thesis
          by (intro disjI1 exI [of _ b] exI [of _ p]) (simp add: createBrowserSession_ok)
      qed
    qed
  qed
qed

lemma ensureBrowser_live:
  "session s = Some ss \<Longrightarrow> connected (browser ss) \<Longrightarrow> ensureBrowser e s = (Inr (), s)"
  by (simp add: ensureBrowser_def)

lemma ensureBrowser_absent: "session s = None \<Longrightarrow> ensureBrowser e s = createBrowserSession e s"
  by (simp add: ensureBrowser_def)

lemma ensureBrowser_stale:
  "session s = Some ss \<Longrightarrow> \<not> connected (browser ss) \<Longrightarrow> ensureBrowser e s = createBrowserSession e s"
  by (simp add: ensureBrowser_def)

text \<open>Every outcome of ensureBrowser: the live session kept, a fresh one stored, or a failure
  that leaves the session as it was.\<close>

lemma ensureBrowser_cases:
  "(\<exists>ss. session s = Some ss \<and> connected (browser ss) \<and> ensureBrowser e s = (Inr (), s))
   \<or> (\<exists>b p. launch e = Inr b \<and> newPage e = Inr p \<and> setUserAgent e = Inr () \<and> setViewport e = Inr ()
         \<and> (\<forall>ss. session s = Some ss \<longrightarrow> \<not> connected (browser ss))
         \<and> ensureBrowser e s = (Inr (), created e b p s))
   \<or> (\<exists>cause new. (\<forall>ss. session s = Some ss \<longrightarrow> \<not> connected (browser ss))
         \<and> ensureBrowser e s = (Inl (creationFailed cause), s\<lparr>engineCalls := engineCalls s @ Launch # new\<rparr>)
         \<and> list_all isSetup new)"
proof (cases "\<exists>ss. session s = Some ss \<and> connected (browser ss)")
  case True
  then show ?thesis by (auto simp: ensureBrowser_live)
next
  case False
  then have eq: "ensureBrowser e s = createBrowserSession e s"
    by (cases "session s") (auto simp: ensureBrowser_def)
  from False have stale: "\<forall>ss. session s = Some ss \<longrightarrow> \<not> connected (browser ss)" by simp
  from createBrowserSession_cases [of e s] show ?thesis
  proof
    assume "\<exists>b p. launch e = Inr b \<and> newPage e = Inr p \<and> setUserAgent e = Inr () \<and> setViewport e = Inr ()
       \<and> createBrowserSession e s = (Inr (), created e b p s)"
    with eq stale show ?thesis by metis
  next
    assume "\<exists>cause new. createBrowserSession e s
          = (Inl (creationFailed cause), s\<lparr>engineCalls := engineCalls s @ Launch # new\<rparr>)
        \<and> list_all isSetup new"
    with eq stale show ?thesis by metis
  qed
qed

lemma isSetup_not_goto: "list_all isSetup cs \<Longrightarrow> Goto p u \<notin> set cs"
  by (auto simp: list_all_iff)

lemma isSetup_not_close: "list_all isSetup cs \<Longrightarrow> BrowserClose h \<notin> set cs"
  by (auto simp: list_all_iff)

lemma setupCalls_isSetup: "list_all isSetup (setupCalls b p)"
  by (simp add: setupCalls_def)

lemma ensureBrowser_ok_session:
  assumes "fst (ensureBrowser e s) = Inr ()"
  shows "\<exists>ss. session (snd (ensureBrowser e s)) = Some ss"
  using ensureBrowser_cases [of s e] assms by (auto simp: created_def)

text \<open>The calls ensureBrowser adds are all set-up calls.\<close>

lemma ensureBrowser_trace:
  "\<exists>new. engineCalls (snd (ensureBrowser e s)) = engineCalls s @ new \<and> list_all isSetup new"
proof -
  from ensureBrowser_cases [of s e] consider
    (live) "ensureBrowser e s = (Inr (), s)"
  | (fresh) b p where "ensureBrowser e s = (Inr (), created e b p s)"
  | (failed) cause new where
      "ensureBrowser e s = (Inl (creationFailed cause), s\<lparr>engineCalls := engineCalls s @ Launch # new\<rparr>)"
      "list_all isSetup new"
    by blast
  then show ?thesis
  proof cases
    case live
    then show ?thesis by simp
  next
    case fresh
    then show ?thesis by (simp add: created_def setupCalls_isSetup)
  next
    case failed
    then show ?thesis by simp
  qed
qed

lemma navigate_bad_scheme:
  assumes "\<not> startsWith url ''http://''" and "\<not> startsWith url ''https://''"
  shows "callTool e (Navigate url) s =
           (case ensureBrowser e s of
              (Inl cause, s') \<Rightarrow> (Inl (toolFailed cause), s')
            | (Inr _, s') \<Rightarrow> (Inl (toolFailed urlError), s'))"
  using assms
  by (simp add: callTool_def navigate_def tryCatch_def andThen_def throw_def toolFailed_def
      urlError_def split: prod.splits sum.splits)

lemma hundredLogs_length: "length hundredLogs = 100"
  by (simp add: hundredLogs_def)

lemma hundredLogs_distinct: "distinct (hundredLogs @ [''b''])"
proof -
  have "inj_on (\<lambda>n. replicate (Suc n) CHR ''a'') (set [0..<100])"
    by (rule inj_onI) (metis length_replicate nat.inject)
  then have "distinct hundredLogs"
    by (simp add: hundredLogs_def distinct_map)
  moreover have "''b'' \<notin> set hundredLogs"
    by (auto simp: hundredLogs_def)
  ultimately show ?thesis by simp
qed

lemma hundredLogs_hd: "hd hundredLogs = ''a''"
proof -
  have "[0..<100] = 0 # [1..<100]" by (simp add: upt_conv_Cons)
  then show ?thesis by (simp add: hundredLogs_def)
qed

lemma okEngine_ensure: "ensureBrowser okEngine initial
   = (Inr (), created okEngine \<lparr>handle = 7, connected = True\<rparr> 3 initial)"
  by (simp add: ensureBrowser_absent initial_def createBrowserSession_ok okEngine_def)

lemma read_console_logs:
  "readResource e ''puppeteer://console-logs'' s
     = (Inr [\<lparr>uri = ''puppeteer://console-logs'', mimeType = ''text/plain'',
              contentText = Plain (consoleLogsText (consoleLogs s))\<rparr>], s)"
  by (simp add: readResource_def readBody_def tryCatch_def)

lemmas action_defs = andThen_def sessionPage_def invoke_def updateActivity_def ret_def throw_def
  tryCatch_def

lemma read_current_page_none:
  "session s = None \<Longrightarrow>
   readResource e ''puppeteer://current-page'' s
     = (Inr [\<lparr>uri = ''puppeteer://current-page'', mimeType = ''application/json'',
              contentText = JsonText (JObject [(''error'', JString ''No browser session active'')])\<rparr>], s)"
  by (simp add: readResource_def readBody_def readCurrentPage_def tryCatch_def noSessionJson_def)

lemma read_current_page_some:
  "session s = Some ss \<Longrightarrow>
   fst (readResource e ''puppeteer://current-page'' s)
     = (case pageTitle e of
          Inl err \<Rightarrow> Inl (McpError InternalError
                            ''Failed to read resource puppeteer://current-page: '' (Some err))
        | Inr title \<Rightarrow>
            Inr [\<lparr>uri = ''puppeteer://current-page'', mimeType = ''application/json'',
                   contentText = JsonText (JObject [(''url'', JString (pageUrl e)),
                     (''title'', JString title), (''sessionActive'', JBool True)])\<rparr>])"
  by (simp add: readResource_def readBody_def readCurrentPage_def tryCatch_def pageInfoJson_def
      andThen_def invoke_def ret_def split: sum.splits)

lemma droppedRun_state:
  "run droppedRun
     = \<lparr>session = Some \<lparr>browser = \<lparr>handle = 7, connected = False\<rparr>, page = 3, lastActivity = 2000\<rparr>,
        consoleLogs = [],
        stderr = [(''Browser session created successfully'', None)],
        engineCalls = setupCalls \<lparr>handle = 7, connected = True\<rparr> 3 @ [Goto 3 ''https://example.com'']\<rparr>"
proof -
  have g: "goto okEngine = Inr ()" "touchedAt okEngine = 2000" "createdAt okEngine = 1000"
    by (simp_all add: okEngine_def)
  have cr: "created okEngine \<lparr>handle = 7, connected = True\<rparr> 3 initial
      = \<lparr>session = Some \<lparr>browser = \<lparr>handle = 7, connected = True\<rparr>, page = 3, lastActivity = 1000\<rparr>,
         consoleLogs = [],
         stderr = [(''Browser session created successfully'', None)],
         engineCalls = setupCalls \<lparr>handle = 7, connected = True\<rparr> 3\<rparr>"
    by (simp add: created_def initial_def g)
  have "callTool okEngine (Navigate ''https://example.com'') initial
      = (Inr [TextContent ''Successfully navigated to https://example.com''],
         \<lparr>session = Some \<lparr>browser = \<lparr>handle = 7, connected = True\<rparr>, page = 3, lastActivity = 2000\<rparr>,
          consoleLogs = [],
          stderr = [(''Browser session created successfully'', None)],
          engineCalls = setupCalls \<lparr>handle = 7, connected = True\<rparr> 3 @ [Goto 3 ''https://example.com'']\<rparr>)"
    by (simp add: callTool_def navigate_def action_defs okEngine_ensure cr g startsWith_def)
  then show ?thesis
    by (simp add: run_def droppedRun_def disconnect_def)
qed

lemma tick_closed:
  assumes "session s = Some ss" and "now - lastActivity ss > SESSION_TIMEOUT"
  shows "session (cleanupTick now e s) = None"
    and "consoleLogs (cleanupTick now e s) = []"
    and "engineCalls (cleanupTick now e s) = engineCalls s @ [BrowserClose (handle (browser ss))]"
proof -
  let ?s1 = "logError ''Browser session timed out, closing...'' None s"
  have s1: "session ?s1 = Some ss" "engineCalls ?s1 = engineCalls s"
    using assms(1) by (simp_all add: logError_def)
  have eq: "cleanupTick now e s = closeBrowser e ?s1"
    using assms by (simp add: cleanupTick_def)
  show "session (cleanupTick now e s) = None"
    by (simp add: eq closeBrowser_session)
  show "consoleLogs (cleanupTick now e s) = []"
    using closeBrowser_some [OF s1(1), of e] by (simp add: eq)
  show "engineCalls (cleanupTick now e s) = engineCalls s @ [BrowserClose (handle (browser ss))]"
    using closeBrowser_some [OF s1(1), of e] s1(2) by (simp add: eq)
qed

lemma tick_kept:
  "session s = None \<or> (\<exists>ss. session s = Some ss \<and> now - lastActivity ss \<le> SESSION_TIMEOUT)
   \<Longrightarrow> cleanupTick now e s = s"
  by (auto simp: cleanupTick_def)

lemma tool_on_session:
  assumes "requiresBrowser req" and "ensureBrowser e s = (Inr (), s1)" and "session s1 = Some ss"
  shows "callTool e req s =
           (case snd (actionOnPage e (page ss) req) of
              Inl cause \<Rightarrow> Inl (toolFailed cause)
            | Inr result \<Rightarrow> Inr result,
            afterAction e req ss s1)"
proof (cases req)
  case (Navigate url)
  with assms(2,3) show ?thesis
    by (auto simp: callTool_def navigate_def action_defs afterAction_def toolFailed_def
        split: sum.splits)
next
  case (Screenshot sel fp)
  with assms(2,3) show ?thesis
    by (auto simp: callTool_def screenshot_def Let_def action_defs afterAction_def toolFailed_def
        split: sum.splits)
next
  case (Click sel)
  with assms(2,3) show ?thesis
    by (auto simp: callTool_def clickTool_def action_defs afterAction_def toolFailed_def
        split: sum.splits)
next
  case (TypeText sel t c)
  with assms(2,3) show ?thesis
    by (auto simp: callTool_def typeTool_def Let_def action_defs afterAction_def toolFailed_def
        split: sum.splits)
next
  case (WaitForElement sel t)
  with assms(2,3) show ?thesis
    by (auto simp: callTool_def waitForElement_def Let_def action_defs afterAction_def toolFailed_def
        split: sum.splits)
next
  case (EvaluateJs code)
  with assms(2,3) show ?thesis
    by (auto simp: callTool_def evaluateJs_def action_defs afterAction_def toolFailed_def
        split: sum.splits)
next
  case (GetText sel)
  with assms(2,3) show ?thesis
    by (auto simp: callTool_def getText_def action_defs afterAction_def toolFailed_def
        split: sum.splits)
next
  case CloseBrowserTool
  with assms(1) show ?thesis by simp
next
  case (UnknownTool name)
  with assms(1) show ?thesis by simp
qed

lemma actionOnPage_onPage:
  "requiresBrowser req \<Longrightarrow> \<forall>c\<in>set (fst (actionOnPage e p req)). onPage c = Some p"
  by (cases req) (auto simp: Let_def split: sum.splits)

lemma ensureBrowser_failure_shape:
  assumes "fst (ensureBrowser e s) = Inl cause"
  shows "\<exists>c. cause = McpError InternalError ''Failed to create browser session: '' (Some c)"
  using ensureBrowser_cases [of s e] assms by (auto simp: creationFailed_def)

section \<open>Verified properties\<close>

text \<open>
  C1. A navigate call whose url starts with neither \<open>http://\<close> nor \<open>https://\<close>
  always fails, and none of the engine calls it makes is a \<open>goto\<close>: the calls it adds
  belong to session set-up only. The session is ensured before the url is validated: when
  that succeeded the failure is the url-validation error, wrapped by the handler's catch as
  an internal error; when session creation failed, the failure is that session-creation
  error, wrapped the same way.
\<close>

theorem navigate_rejects_bad_scheme:
  assumes "\<not> startsWith url ''http://''" and "\<not> startsWith url ''https://''"
  shows "\<exists>err s' new.
           callTool e (Navigate url) s = (Inl err, s')
         \<and> engineCalls s' = engineCalls s @ new
         \<and> (\<forall>p u. Goto p u \<notin> set new)
         \<and> (fst (ensureBrowser e s) = Inr () \<longrightarrow>
              err = McpError InternalError ''Tool execution failed: ''
                      (Some (Error ''URL must start with http:// or https://'')))
         \<and> (\<forall>cause. fst (ensureBrowser e s) = Inl cause \<longrightarrow>
              err = McpError InternalError ''Tool execution failed: '' (Some cause)
            \<and> (\<exists>c. cause = McpError InternalError ''Failed to create browser session: '' (Some c)))"
proof -
  obtain r s' where en: "ensureBrowser e s = (r, s')" by (cases "ensureBrowser e s")
  from ensureBrowser_trace [of e s] en obtain new
    where tr: "engineCalls s' = engineCalls s @ new" and su: "list_all isSetup new"
    by auto
  from su have ng: "\<forall>p u. Goto p u \<notin> set new" by (simp add: isSetup_not_goto)
  show ?thesis
  proof (cases r)
    case (Inl cause)
    with en assms have "callTool e (Navigate url) s = (Inl (toolFailed cause), s')"
      by (simp add: navigate_bad_scheme)
    moreover from en Inl
    have "\<exists>c. cause = McpError InternalError ''Failed to create browser session: '' (Some c)"
      by (intro ensureBrowser_failure_shape [of e s]) simp
    ultimately show ?thesis using tr ng en Inl by (simp add: toolFailed_def)
  next
    case (Inr u)
    with en assms have "callTool e (Navigate url) s = (Inl (toolFailed urlError), s')"
      by (simp add: navigate_bad_scheme)
    with tr ng en Inr show ?thesis by (simp add: toolFailed_def urlError_def)
  qed
qed

theorem navigate_rejects_bad_scheme_witness:
  "\<not> startsWith ''ftp://example.com'' ''http://'' \<and> \<not> startsWith ''ftp://example.com'' ''https://''
   \<and> fst (ensureBrowser okEngine initial) = Inr ()
   \<and> fst (callTool okEngine (Navigate ''ftp://example.com'') initial)
       = Inl (McpError InternalError ''Tool execution failed: ''
                (Some (Error ''URL must start with http:// or https://'')))
   \<and> fst (ensureBrowser noLaunchEngine initial)
       = Inl (McpError InternalError ''Failed to create browser session: ''
                (Some (Error ''Failed to launch the browser process'')))
   \<and> fst (callTool noLaunchEngine (Navigate ''ftp://example.com'') initial)
       = Inl (McpError InternalError ''Tool execution failed: ''
                (Some (McpError InternalError ''Failed to create browser session: ''
                         (Some (Error ''Failed to launch the browser process'')))))"
proof -
  have a: "\<not> startsWith ''ftp://example.com'' ''http://''" by (simp add: startsWith_def)
  have b: "\<not> startsWith ''ftp://example.com'' ''https://''" by (simp add: startsWith_def)
  have c: "fst (ensureBrowser okEngine initial) = Inr ()"
    by (simp add: ensureBrowser_absent initial_def createBrowserSession_ok okEngine_def)
  have d: "fst (ensureBrowser noLaunchEngine initial)
       = Inl (McpError InternalError ''Failed to create browser session: ''
                (Some (Error ''Failed to launch the browser process'')))"
    by (simp add: ensureBrowser_absent initial_def createBrowserSession_def tryCatch_def
        andThen_def invoke_def noLaunchEngine_def)
  have 1: "fst (callTool okEngine (Navigate ''ftp://example.com'') initial)
       = Inl (McpError InternalError ''Tool execution failed: ''
                (Some (Error ''URL must start with http:// or https://'')))"
    using navigate_rejects_bad_scheme [OF a b, of okEngine initial] c by auto
  have 2: "fst (callTool noLaunchEngine (Navigate ''ftp://example.com'') initial)
       = Inl (McpError InternalError ''Tool execution failed: ''
                (Some (McpError InternalError ''Failed to create browser session: ''
                         (Some (Error ''Failed to launch the browser process'')))))"
    using navigate_rejects_bad_scheme [OF a b, of noLaunchEngine initial] d by auto
  from a b c d 1 2 show ?thesis by blast
qed

text \<open>
  The url-validation error is not what every such call raises: with no session stored and an
  engine that cannot launch a browser, the call fails with the session-creation failure,
  because the session is ensured before the url is looked at.
\<close>

theorem navigate_launch_failure_counterexample:
  "\<not> startsWith ''ftp://example.com'' ''http://''
   \<and> \<not> startsWith ''ftp://example.com'' ''https://''
   \<and> fst (callTool noLaunchEngine (Navigate ''ftp://example.com'') initial)
       = Inl (McpError InternalError ''Tool execution failed: ''
                (Some (McpError InternalError ''Failed to create browser session: ''
                         (Some (Error ''Failed to launch the browser process'')))))
   \<and> fst (callTool noLaunchEngine (Navigate ''ftp://example.com'') initial)
       \<noteq> Inl (McpError InternalError ''Tool execution failed: ''
                (Some (Error ''URL must start with http:// or https://'')))"
proof -
  have a: "\<not> startsWith ''ftp://example.com'' ''http://''" by (simp add: startsWith_def)
  have b: "\<not> startsWith ''ftp://example.com'' ''https://''" by (simp add: startsWith_def)
  have d: "ensureBrowser noLaunchEngine initial
       = (Inl (McpError InternalError ''Failed to create browser session: ''
                (Some (Error ''Failed to launch the browser process''))),
          initial\<lparr>engineCalls := [Launch]\<rparr>)"
    by (simp add: ensureBrowser_absent initial_def createBrowserSession_def tryCatch_def
        andThen_def invoke_def noLaunchEngine_def)
  have "fst (callTool noLaunchEngine (Navigate ''ftp://example.com'') initial)
       = Inl (McpError InternalError ''Tool execution failed: ''
                (Some (McpError InternalError ''Failed to create browser session: ''
                         (Some (Error ''Failed to launch the browser process'')))))"
    by (simp add: navigate_bad_scheme [OF a b] d toolFailed_def)
  with a b show ?thesis by simp
qed

text \<open>
  C2. The console log buffer never holds more than 100 entries, in any state the server
  reaches from its initial state. A console event pushes its entry and keeps the last 100:
  the newest entry is last; with room left nothing is dropped; on a full buffer exactly the
  oldest entry is dropped (first in, first out), so that it is absent when the entries are
  pairwise different. A buffer fed from empty holds exactly the 100 most recent entries.
\<close>

theorem console_buffer_fifo_100:
  "length (consoleLogs (run evs)) \<le> 100
   \<and> consoleLogs (step s (ConsoleEvent ty msg)) = pushLog (consoleLogs s) (''['' @ ty @ ''] '' @ msg)
   \<and> length (pushLog logs x) \<le> 100
   \<and> last (pushLog logs x) = x
   \<and> (length logs < 100 \<longrightarrow> pushLog logs x = logs @ [x])
   \<and> (length logs = 100 \<longrightarrow> pushLog logs x = tl logs @ [x])
   \<and> (length logs = 100 \<and> distinct (logs @ [x]) \<longrightarrow> hd logs \<notin> set (pushLog logs x))
   \<and> foldl pushLog [] entries = drop (length entries - 100) entries"
proof -
  have "foldl pushLog [] entries = drop (length entries - 100) entries"
    by (simp add: foldl_pushLog sliceLast_def)
  moreover have "consoleLogs (step s (ConsoleEvent ty msg))
      = pushLog (consoleLogs s) (''['' @ ty @ ''] '' @ msg)"
    by (simp add: onConsole_def)
  ultimately show ?thesis
    using run_logs_bounded [of evs] length_pushLog [of logs x] pushLog_last [of logs x]
      pushLog_room [of logs x] pushLog_full [of logs x] pushLog_evicts [of logs x]
    by blast
qed

theorem console_buffer_fifo_100_witness:
  "length hundredLogs = 100 \<and> distinct (hundredLogs @ [''b''])
   \<and> pushLog hundredLogs ''b'' = tl hundredLogs @ [''b'']
   \<and> ''a'' \<notin> set (pushLog hundredLogs ''b'')
   \<and> length (pushLog hundredLogs ''b'') \<le> 100
   \<and> pushLog [] ''b'' = [''b'']"
proof -
  note full = console_buffer_fifo_100 [of "[]" initial "''log''" "''x''" hundredLogs "''b''" "[]"]
  note empty = console_buffer_fifo_100 [of "[]" initial "''log''" "''x''" "[]" "''b''" "[]"]
  have 1: "pushLog hundredLogs ''b'' = tl hundredLogs @ [''b'']"
    using full hundredLogs_length by blast
  have "hd hundredLogs \<notin> set (pushLog hundredLogs ''b'')"
    using full hundredLogs_length hundredLogs_distinct by blast
  then have 2: "''a'' \<notin> set (pushLog hundredLogs ''b'')"
    by (simp add: hundredLogs_hd)
  have 3: "length (pushLog hundredLogs ''b'') \<le> 100"
    using full by blast
  have 4: "pushLog [] ''b'' = [''b'']"
    using empty by simp
  from hundredLogs_length hundredLogs_distinct 1 2 3 4 show ?thesis by blast
qed

text \<open>
  C3. The current-page resource does not look at the browser's connection. In the run below
  a navigate succeeds and the connection then drops: the session stays stored with a
  disconnected browser, and a current-page read queries that session's page for url and
  title. When the title query answers, the session is reported with the active flag; when
  it throws, the read fails with an internal error; the no-active-session object is not
  returned. On the same state \<open>ensureBrowser\<close>, which does test the connection,
  launches a new browser.
\<close>

theorem current_page_serves_disconnected_session:
  "map_option (connected \<circ> browser) (session (run droppedRun)) = Some False
   \<and> map_option page (session (run droppedRun)) = Some 3
   \<and> fst (readResource okEngine ''puppeteer://current-page'' (run droppedRun))
        = Inr [\<lparr>uri = ''puppeteer://current-page'', mimeType = ''application/json'',
                 contentText = JsonText (JObject [(''url'', JString ''https://example.com/''),
                   (''title'', JString ''Example Domain''), (''sessionActive'', JBool True)])\<rparr>]
   \<and> engineCalls (snd (readResource okEngine ''puppeteer://current-page'' (run droppedRun)))
        = engineCalls (run droppedRun) @ [PageUrl 3, PageTitle 3]
   \<and> fst (readResource targetClosedEngine ''puppeteer://current-page'' (run droppedRun))
        = Inl (McpError InternalError ''Failed to read resource puppeteer://current-page: ''
                 (Some (Error ''Protocol error: Target closed'')))
   \<and> engineCalls (snd (ensureBrowser okEngine (run droppedRun)))
        = engineCalls (run droppedRun) @
            [Launch, NewPage 7, SetUserAgent 3 USER_AGENT, SetViewport 3 1280 720, OnConsole 3]"
proof -
  have st: "session (run droppedRun)
      = Some \<lparr>browser = \<lparr>handle = 7, connected = False\<rparr>, page = 3, lastActivity = 2000\<rparr>"
    by (simp add: droppedRun_state)
  have nc: "\<not> connected (browser \<lparr>browser = \<lparr>handle = 7, connected = False\<rparr>, page = 3, lastActivity = 2000\<rparr>)"
    by simp
  have calls: "engineCalls (snd (readResource okEngine ''puppeteer://current-page'' (run droppedRun)))
        = engineCalls (run droppedRun) @ [PageUrl 3, PageTitle 3]"
    using st
    by (simp add: readResource_def readBody_def readCurrentPage_def tryCatch_def andThen_def
        invoke_def ret_def split: sum.splits)
  have ok: "launch okEngine = Inr \<lparr>handle = 7, connected = True\<rparr>" "newPage okEngine = Inr 3"
    "setUserAgent okEngine = Inr ()" "setViewport okEngine = Inr ()"
    by (simp_all add: okEngine_def)
  have en: "engineCalls (snd (ensureBrowser okEngine (run droppedRun)))
        = engineCalls (run droppedRun) @
            [Launch, NewPage 7, SetUserAgent 3 USER_AGENT, SetViewport 3 1280 720, OnConsole 3]"
    by (simp add: ensureBrowser_stale [OF st nc] createBrowserSession_ok [OF ok] created_def
        setupCalls_def)
  have r1: "fst (readResource okEngine ''puppeteer://current-page'' (run droppedRun))
        = Inr [\<lparr>uri = ''puppeteer://current-page'', mimeType = ''application/json'',
                 contentText = JsonText (JObject [(''url'', JString ''https://example.com/''),
                   (''title'', JString ''Example Domain''), (''sessionActive'', JBool True)])\<rparr>]"
    using st by (simp add: read_current_page_some okEngine_def)
  have r2: "fst (readResource targetClosedEngine ''puppeteer://current-page'' (run droppedRun))
        = Inl (McpError InternalError ''Failed to read resource puppeteer://current-page: ''
                 (Some (Error ''Protocol error: Target closed'')))"
    using st by (simp add: read_current_page_some targetClosedEngine_def)
  from st calls en r1 r2 show ?thesis by simp
qed

text \<open>
  C4. A cleanup tick closes the session if and only if a session exists and the time since
  \<open>lastActivity\<close> is strictly greater than the 30-minute threshold; closing clears the
  session and empties the log buffer. A tick with no session, or with an idle time up to and
  including the threshold, changes nothing. A session that has been idle for at least the
  threshold at some instant is closed by a tick one timer period later.
\<close>

theorem cleanupTick_closes_iff_idle_exceeds:
  "SESSION_TIMEOUT = 1800000
   \<and> (session s = None \<longrightarrow> cleanupTick now e s = s)
   \<and> (\<forall>ss. session s = Some ss \<and> now - lastActivity ss \<le> SESSION_TIMEOUT \<longrightarrow> cleanupTick now e s = s)
   \<and> (\<forall>ss. session s = Some ss \<and> now - lastActivity ss > SESSION_TIMEOUT \<longrightarrow>
         session (cleanupTick now e s) = None
       \<and> consoleLogs (cleanupTick now e s) = []
       \<and> engineCalls (cleanupTick now e s) = engineCalls s @ [BrowserClose (handle (browser ss))])
   \<and> ((engineCalls (cleanupTick now e s) \<noteq> engineCalls s)
        = (\<exists>ss. session s = Some ss \<and> now - lastActivity ss > SESSION_TIMEOUT))
   \<and> (\<forall>ss. session s = Some ss \<and> now - lastActivity ss \<ge> SESSION_TIMEOUT \<longrightarrow>
         session (cleanupTick (now + CLEANUP_INTERVAL) e s) = None
       \<and> consoleLogs (cleanupTick (now + CLEANUP_INTERVAL) e s) = [])"
proof -
  have 1: "SESSION_TIMEOUT = 1800000" by (simp add: SESSION_TIMEOUT_def)
  have 2: "session s = None \<longrightarrow> cleanupTick now e s = s"
    by (simp add: tick_kept)
  have 3: "\<forall>ss. session s = Some ss \<and> now - lastActivity ss \<le> SESSION_TIMEOUT \<longrightarrow> cleanupTick now e s = s"
    by (simp add: tick_kept)
  have 4: "\<forall>ss. session s = Some ss \<and> now - lastActivity ss > SESSION_TIMEOUT \<longrightarrow>
         session (cleanupTick now e s) = None
       \<and> consoleLogs (cleanupTick now e s) = []
       \<and> engineCalls (cleanupTick now e s) = engineCalls s @ [BrowserClose (handle (browser ss))]"
    using tick_closed [of s _ now e] by blast
  have 5: "(engineCalls (cleanupTick now e s) \<noteq> engineCalls s)
        = (\<exists>ss. session s = Some ss \<and> now - lastActivity ss > SESSION_TIMEOUT)"
  proof (cases "\<exists>ss. session s = Some ss \<and> now - lastActivity ss > SESSION_TIMEOUT")
    case True
    with 4 show ?thesis by auto
  next
    case False
    then have "cleanupTick now e s = s"
      by (cases "session s") (auto simp: tick_kept)
    with False show ?thesis by simp
  qed
  have 6: "\<forall>ss. session s = Some ss \<and> now - lastActivity ss \<ge> SESSION_TIMEOUT \<longrightarrow>
         session (cleanupTick (now + CLEANUP_INTERVAL) e s) = None
       \<and> consoleLogs (cleanupTick (now + CLEANUP_INTERVAL) e s) = []"
  proof (intro allI impI)
    fix ss
    assume a: "session s = Some ss \<and> now - lastActivity ss \<ge> SESSION_TIMEOUT"
    then have "now + CLEANUP_INTERVAL - lastActivity ss > SESSION_TIMEOUT"
      by (simp add: CLEANUP_INTERVAL_def)
    with a tick_closed(1,2) [of s ss "now + CLEANUP_INTERVAL" e]
    show "session (cleanupTick (now + CLEANUP_INTERVAL) e s) = None
       \<and> consoleLogs (cleanupTick (now + CLEANUP_INTERVAL) e s) = []"
      by simp
  qed
  from 1 2 3 4 5 6 show ?thesis by blast
qed

theorem cleanupTick_closes_iff_idle_exceeds_witness:
  "session idleServer \<noteq> None
   \<and> cleanupTick 1800000 okEngine idleServer = idleServer
   \<and> session (cleanupTick 1800001 okEngine idleServer) = None
   \<and> consoleLogs (cleanupTick 1800001 okEngine idleServer) = []
   \<and> cleanupTick 1800001 okEngine initial = initial
   \<and> session (cleanupTick (1800000 + CLEANUP_INTERVAL) okEngine idleServer) = None"
proof -
  let ?ss = "\<lparr>browser = \<lparr>handle = 7, connected = True\<rparr>, page = 3, lastActivity = 0\<rparr>"
  have a: "session idleServer = Some ?ss" by (simp add: idleServer_def)
  have b: "session initial = None" by (simp add: initial_def)
  have le: "1800000 - lastActivity ?ss \<le> SESSION_TIMEOUT"
    and ge: "1800000 - lastActivity ?ss \<ge> SESSION_TIMEOUT"
    and gt: "1800001 - lastActivity ?ss > SESSION_TIMEOUT"
    by (simp_all add: SESSION_TIMEOUT_def)
  note at = cleanupTick_closes_iff_idle_exceeds [of idleServer 1800000 okEngine]
  note after = cleanupTick_closes_iff_idle_exceeds [of idleServer 1800001 okEngine]
  note none = cleanupTick_closes_iff_idle_exceeds [of initial 1800001 okEngine]
  have 1: "cleanupTick 1800000 okEngine idleServer = idleServer"
    using at a le by blast
  have 2: "session (cleanupTick 1800001 okEngine idleServer) = None
      \<and> consoleLogs (cleanupTick 1800001 okEngine idleServer) = []"
    using after a gt by blast
  have 3: "cleanupTick 1800001 okEngine initial = initial"
    using none b by blast
  have 4: "session (cleanupTick (1800000 + CLEANUP_INTERVAL) okEngine idleServer) = None"
    using at a ge by blast
  from a 1 2 3 4 show ?thesis by simp
qed

text \<open>
  At an idle time of exactly the threshold the tick leaves the session and the buffer alone.
\<close>

theorem cleanupTick_at_threshold_counterexample:
  "map_option lastActivity (session idleServer) = Some 0
   \<and> (1800000 :: int) - 0 \<ge> SESSION_TIMEOUT
   \<and> session (cleanupTick 1800000 okEngine idleServer) \<noteq> None
   \<and> consoleLogs (cleanupTick 1800000 okEngine idleServer) \<noteq> []"
  by (simp add: idleServer_def cleanupTick_def SESSION_TIMEOUT_def)

text \<open>
  C5. A get-text call with no selector (absent or empty), on a session that could be
  ensured and a page whose body text could be read, returns \<open>Page text: \<close> followed by
  the first 1000 characters of the text and the marker \<open>...\<close> when the text is longer
  than 1000, and followed by the whole text with no marker otherwise.
\<close>

theorem getText_page_truncates_at_1000:
  assumes "\<not> truthy selector" and "fst (ensureBrowser e s) = Inr ()" and "evalBodyText e = Inr doc"
  shows "fst (callTool e (GetText selector) s)
           = Inr [TextContent (''Page text: '' @
                    (if length doc > 1000 then take 1000 doc @ ''...'' else doc))]"
proof -
  obtain s1 where en: "ensureBrowser e s = (Inr (), s1)"
    using assms(2) by (cases "ensureBrowser e s") auto
  with ensureBrowser_ok_session [OF assms(2)] obtain ss where ss: "session s1 = Some ss"
    by auto
  from assms(1,3) en ss show ?thesis
    by (simp add: callTool_def getText_def tryCatch_def andThen_def sessionPage_def invoke_def
        updateActivity_def ret_def substring0_def)
qed

theorem getText_page_truncates_at_1000_witness:
  "\<not> truthy None \<and> fst (ensureBrowser okEngine initial) = Inr ()
   \<and> evalBodyText (okEngine\<lparr>evalBodyText := Inr (replicate 1001 CHR ''x'')\<rparr>) = Inr (replicate 1001 CHR ''x'')
   \<and> fst (callTool (okEngine\<lparr>evalBodyText := Inr (replicate 1001 CHR ''x'')\<rparr>) (GetText None) initial)
       = Inr [TextContent (''Page text: '' @ replicate 1000 CHR ''x'' @ ''...'')]
   \<and> fst (callTool okEngine (GetText None) initial) = Inr [TextContent ''Page text: Example Domain'']"
proof -
  let ?e = "okEngine\<lparr>evalBodyText := Inr (replicate 1001 CHR ''x'')\<rparr>"
  have a: "\<not> truthy None" by (simp add: truthy_def)
  have b: "fst (ensureBrowser okEngine initial) = Inr ()" by (simp add: okEngine_ensure)
  have b': "fst (ensureBrowser ?e initial) = Inr ()"
    by (simp add: ensureBrowser_absent initial_def createBrowserSession_ok okEngine_def)
  have c: "evalBodyText ?e = Inr (replicate 1001 CHR ''x'')" by simp
  have d: "evalBodyText okEngine = Inr ''Example Domain''" by (simp add: okEngine_def)
  from getText_page_truncates_at_1000 [OF a b' c] getText_page_truncates_at_1000 [OF a b d] a b c
  show ?thesis by simp
qed

text \<open>
  C6. \<open>closeBrowser\<close> never fails and is idempotent. With a session stored it invokes the
  browser's close once, clears the session and empties the log buffer, also when the close
  throws; the thrown error is only written to stderr. With no session stored it changes
  nothing. The close-browser tool always returns its confirmation text, and calling it twice
  leaves the state that calling it once leaves.
\<close>

theorem closeBrowser_idempotent_best_effort:
  "closeBrowser e' (closeBrowser e s) = closeBrowser e s
   \<and> session (closeBrowser e s) = None
   \<and> (session s = None \<longrightarrow> closeBrowser e s = s)
   \<and> (\<forall>ss. session s = Some ss \<longrightarrow>
         consoleLogs (closeBrowser e s) = []
       \<and> engineCalls (closeBrowser e s) = engineCalls s @ [BrowserClose (handle (browser ss))])
   \<and> (\<forall>ss err. session s = Some ss \<and> browserClose e = Inl err \<longrightarrow>
         stderr (closeBrowser e s) = stderr s @ [(''Error closing browser:'', Some err)])
   \<and> callTool e CloseBrowserTool s = (Inr [TextContent ''Browser session closed''], closeBrowser e s)
   \<and> snd (callTool e' CloseBrowserTool (snd (callTool e CloseBrowserTool s)))
       = snd (callTool e CloseBrowserTool s)"
proof -
  have "\<forall>ss err. session s = Some ss \<and> browserClose e = Inl err \<longrightarrow>
         stderr (closeBrowser e s) = stderr s @ [(''Error closing browser:'', Some err)]"
    by (simp add: closeBrowser_def logError_def Let_def)
  then show ?thesis
    using closeBrowser_idem [of e' e s] closeBrowser_session [of e s] closeBrowser_none [of s e]
      closeBrowser_some [of s _ e] closeTool [of e s]
    by (simp add: closeTool)
qed

theorem closeBrowser_idempotent_best_effort_witness:
  "session idleServer \<noteq> None
   \<and> browserClose (okEngine\<lparr>browserClose := Inl (Error ''Protocol error'')\<rparr>) = Inl (Error ''Protocol error'')
   \<and> session (closeBrowser (okEngine\<lparr>browserClose := Inl (Error ''Protocol error'')\<rparr>) idleServer) = None
   \<and> consoleLogs (closeBrowser (okEngine\<lparr>browserClose := Inl (Error ''Protocol error'')\<rparr>) idleServer) = []
   \<and> engineCalls (closeBrowser (okEngine\<lparr>browserClose := Inl (Error ''Protocol error'')\<rparr>) idleServer)
        = [BrowserClose 7]
   \<and> stderr (closeBrowser (okEngine\<lparr>browserClose := Inl (Error ''Protocol error'')\<rparr>) idleServer)
        = [(''Error closing browser:'', Some (Error ''Protocol error''))]
   \<and> closeBrowser okEngine initial = initial"
  using closeBrowser_idempotent_best_effort
      [of okEngine "okEngine\<lparr>browserClose := Inl (Error ''Protocol error'')\<rparr>" idleServer]
    closeBrowser_idempotent_best_effort [of okEngine okEngine initial]
  by (simp add: idleServer_def initial_def)

text \<open>
  C7. Reading a resource outside the catalog: the \<open>InvalidRequest\<close> error thrown in the
  \<open>default\<close> branch is caught by the handler's own \<open>catch\<close>, so the request fails
  with an \<open>InternalError\<close> that carries it as its cause.
\<close>

theorem readResource_unknown_uri_is_internal_error:
  "readResource okEngine ''puppeteer://cookies'' initial
     = (Inl (McpError InternalError ''Failed to read resource puppeteer://cookies: ''
               (Some (McpError InvalidRequest ''Unknown resource: puppeteer://cookies'' None))),
        initial)"
proof -
  have "''puppeteer://cookies'' \<notin> set resourceCatalog"
    by (simp add: resourceCatalog_def)
  from read_unknown [OF this, of okEngine initial] show ?thesis by simp
qed

text \<open>
  C8. After close-browser no session is stored, and the next tool call that needs a browser
  starts by launching one. When the engine launches the browser and sets up the page, the
  call goes on to perform the tool's action on the new page: its outcome is the outcome of
  that action (a failure only if the action itself throws, wrapped by the handler's catch),
  the engine calls after set-up are exactly the action's calls, all on the new page, and the
  session stored afterwards is the new one, its activity stamped when the action succeeded.
\<close>

theorem tool_after_close_creates_fresh_session:
  assumes "requiresBrowser req"
    and "s = snd (callTool e0 CloseBrowserTool s0)"
  shows "session s = None
       \<and> (\<exists>rest. engineCalls (snd (callTool e req s)) = engineCalls s @ Launch # rest)
       \<and> (\<forall>b p. launch e = Inr b \<and> newPage e = Inr p
                 \<and> setUserAgent e = Inr () \<and> setViewport e = Inr () \<longrightarrow>
              fst (callTool e req s)
                = (case snd (actionOnPage e p req) of
                     Inl cause \<Rightarrow>
                       Inl (McpError InternalError ''Tool execution failed: '' (Some cause))
                   | Inr result \<Rightarrow> Inr result)
            \<and> engineCalls (snd (callTool e req s))
                = engineCalls s @ [Launch, NewPage (handle b), SetUserAgent p USER_AGENT,
                                   SetViewport p 1280 720, OnConsole p]
                    @ fst (actionOnPage e p req)
            \<and> (\<forall>c\<in>set (fst (actionOnPage e p req)). onPage c = Some p)
            \<and> session (snd (callTool e req s))
                = Some \<lparr>browser = b, page = p,
                         lastActivity = (case snd (actionOnPage e p req) of
                                           Inl cause \<Rightarrow> createdAt e
                                         | Inr result \<Rightarrow> touchedAt e)\<rparr>)"
proof -
  from assms(2) have none: "session s = None"
    by (simp add: closeTool closeBrowser_session)
  then have eq: "ensureBrowser e s = createBrowserSession e s"
    by (rule ensureBrowser_absent)
  have fresh:
    "fst (callTool e req s)
       = (case snd (actionOnPage e p req) of
            Inl cause \<Rightarrow> Inl (McpError InternalError ''Tool execution failed: '' (Some cause))
          | Inr result \<Rightarrow> Inr result)
     \<and> engineCalls (snd (callTool e req s))
         = engineCalls s @ [Launch, NewPage (handle b), SetUserAgent p USER_AGENT,
                            SetViewport p 1280 720, OnConsole p]
             @ fst (actionOnPage e p req)
     \<and> (\<forall>c\<in>set (fst (actionOnPage e p req)). onPage c = Some p)
     \<and> session (snd (callTool e req s))
         = Some \<lparr>browser = b, page = p,
                  lastActivity = (case snd (actionOnPage e p req) of
                                    Inl cause \<Rightarrow> createdAt e
                                  | Inr result \<Rightarrow> touchedAt e)\<rparr>"
    if ok: "launch e = Inr b" "newPage e = Inr p" "setUserAgent e = Inr ()" "setViewport e = Inr ()"
    for b p
  proof -
    let ?ss = "\<lparr>browser = b, page = p, lastActivity = createdAt e\<rparr>"
    from ok eq have en: "ensureBrowser e s = (Inr (), created e b p s)"
      by (simp add: createBrowserSession_ok)
    have se: "session (created e b p s) = Some ?ss"
      by (simp add: created_def)
    note run = tool_on_session [OF assms(1) en se]
    have 1: "fst (callTool e req s)
       = (case snd (actionOnPage e p req) of
            Inl cause \<Rightarrow> Inl (McpError InternalError ''Tool execution failed: '' (Some cause))
          | Inr result \<Rightarrow> Inr result)"
      by (simp add: run toolFailed_def split: sum.splits)
    have 2: "engineCalls (snd (callTool e req s))
         = engineCalls s @ [Launch, NewPage (handle b), SetUserAgent p USER_AGENT,
                            SetViewport p 1280 720, OnConsole p]
             @ fst (actionOnPage e p req)"
      by (simp add: run afterAction_def created_def setupCalls_def)
    have 3: "\<forall>c\<in>set (fst (actionOnPage e p req)). onPage c = Some p"
      using assms(1) by (rule actionOnPage_onPage)
    have 4: "session (snd (callTool e req s))
         = Some \<lparr>browser = b, page = p,
                  lastActivity = (case snd (actionOnPage e p req) of
                                    Inl cause \<Rightarrow> createdAt e
                                  | Inr result \<Rightarrow> touchedAt e)\<rparr>"
      by (simp add: run afterAction_def split: sum.splits)
    from 1 2 3 4 show ?thesis by blast
  qed
  have first: "\<exists>rest. engineCalls (snd (callTool e req s)) = engineCalls s @ Launch # rest"
  proof -
    from createBrowserSession_cases [of e s] show ?thesis
    proof
      assume "\<exists>b p. launch e = Inr b \<and> newPage e = Inr p \<and> setUserAgent e = Inr ()
          \<and> setViewport e = Inr () \<and> createBrowserSession e s = (Inr (), created e b p s)"
      then obtain b p where "launch e = Inr b" "newPage e = Inr p" "setUserAgent e = Inr ()"
          "setViewport e = Inr ()"
        by blast
      from fresh [OF this] show ?thesis by simp
    next
      assume "\<exists>cause new. createBrowserSession e s
          = (Inl (creationFailed cause), s\<lparr>engineCalls := engineCalls s @ Launch # new\<rparr>)
        \<and> list_all isSetup new"
      then obtain cause new where f: "ensureBrowser e s
          = (Inl (creationFailed cause), s\<lparr>engineCalls := engineCalls s @ Launch # new\<rparr>)"
        using eq by auto
      have "snd (callTool e req s) = s\<lparr>engineCalls := engineCalls s @ Launch # new\<rparr>"
        using assms(1) f
        by (cases req)
           (simp_all add: callTool_def navigate_def screenshot_def clickTool_def typeTool_def
              waitForElement_def evaluateJs_def getText_def Let_def tryCatch_def andThen_def)
      then show ?thesis by simp
    qed
  qed
  from none first fresh show ?thesis by blast
qed

theorem tool_after_close_creates_fresh_session_witness:
  "requiresBrowser (Click ''#submit'')
   \<and> session idleServer \<noteq> None
   \<and> session (snd (callTool okEngine CloseBrowserTool idleServer)) = None
   \<and> launch okEngine = Inr \<lparr>handle = 7, connected = True\<rparr> \<and> newPage okEngine = Inr 3
   \<and> setUserAgent okEngine = Inr () \<and> setViewport okEngine = Inr ()
   \<and> fst (callTool okEngine (Click ''#submit'') (snd (callTool okEngine CloseBrowserTool idleServer)))
        = Inr [TextContent ''Successfully clicked element: #submit'']
   \<and> engineCalls (snd (callTool okEngine (Click ''#submit'')
                          (snd (callTool okEngine CloseBrowserTool idleServer))))
        = [BrowserClose 7, Launch, NewPage 7, SetUserAgent 3 USER_AGENT, SetViewport 3 1280 720,
           OnConsole 3, ClickOn 3 ''#submit'' 1]
   \<and> session (snd (callTool okEngine (Click ''#submit'')
                      (snd (callTool okEngine CloseBrowserTool idleServer))))
        = Some \<lparr>browser = \<lparr>handle = 7, connected = True\<rparr>, page = 3, lastActivity = 2000\<rparr>"
proof -
  let ?s = "snd (callTool okEngine CloseBrowserTool idleServer)"
  have a: "requiresBrowser (Click ''#submit'')" by simp
  have b: "?s = snd (callTool okEngine CloseBrowserTool idleServer)" by simp
  have c: "launch okEngine = Inr \<lparr>handle = 7, connected = True\<rparr>" "newPage okEngine = Inr 3"
    "setUserAgent okEngine = Inr ()" "setViewport okEngine = Inr ()"
    by (simp_all add: okEngine_def)
  have d: "session idleServer \<noteq> None" by (simp add: idleServer_def)
  have k: "click okEngine = Inr ()" "touchedAt okEngine = 2000"
    by (simp_all add: okEngine_def)
  have cl: "engineCalls ?s = [BrowserClose 7]"
    by (simp add: closeTool closeBrowser_def idleServer_def okEngine_def)
  note t = tool_after_close_creates_fresh_session [OF a b, of okEngine]
  from t have n: "session ?s = None" by blast
  from t c have
    1: "fst (callTool okEngine (Click ''#submit'') ?s)
          = (case snd (actionOnPage okEngine 3 (Click ''#submit'')) of
               Inl cause \<Rightarrow> Inl (McpError InternalError ''Tool execution failed: '' (Some cause))
             | Inr result \<Rightarrow> Inr result)"
    and 2: "engineCalls (snd (callTool okEngine (Click ''#submit'') ?s))
          = engineCalls ?s @ [Launch, NewPage (handle \<lparr>handle = 7, connected = True\<rparr>),
                              SetUserAgent 3 USER_AGENT, SetViewport 3 1280 720, OnConsole 3]
              @ fst (actionOnPage okEngine 3 (Click ''#submit''))"
    and 3: "session (snd (callTool okEngine (Click ''#submit'') ?s))
          = Some \<lparr>browser = \<lparr>handle = 7, connected = True\<rparr>, page = 3,
                   lastActivity = (case snd (actionOnPage okEngine 3 (Click ''#submit'')) of
                                     Inl cause \<Rightarrow> createdAt okEngine
                                   | Inr result \<Rightarrow> touchedAt okEngine)\<rparr>"
    by blast+
  from 1 k have r1: "fst (callTool okEngine (Click ''#submit'') ?s)
        = Inr [TextContent ''Successfully clicked element: #submit'']"
    by simp
  from 2 cl have r2: "engineCalls (snd (callTool okEngine (Click ''#submit'') ?s))
        = [BrowserClose 7, Launch, NewPage 7, SetUserAgent 3 USER_AGENT, SetViewport 3 1280 720,
           OnConsole 3, ClickOn 3 ''#submit'' 1]"
    by simp
  from 3 k have r3: "session (snd (callTool okEngine (Click ''#submit'') ?s))
        = Some \<lparr>browser = \<lparr>handle = 7, connected = True\<rparr>, page = 3, lastActivity = 2000\<rparr>"
    by simp
  from a d n c r1 r2 r3 show ?thesis by blast
qed

text \<open>
  C9. A navigate call with a bad url, made while no session is stored and with an engine that
  launches a browser: the call fails with the url-validation error, and the state has
  changed all the same, since the freshly created session stays stored.
\<close>

theorem navigate_bad_scheme_leaves_fresh_session:
  assumes "session s = None"
    and "\<not> startsWith url ''http://''" and "\<not> startsWith url ''https://''"
    and "launch e = Inr b" and "newPage e = Inr p"
    and "setUserAgent e = Inr ()" and "setViewport e = Inr ()"
  shows "\<exists>s'. callTool e (Navigate url) s
                = (Inl (McpError InternalError ''Tool execution failed: ''
                          (Some (Error ''URL must start with http:// or https://''))), s')
            \<and> session s' = Some \<lparr>browser = b, page = p, lastActivity = createdAt e\<rparr>
            \<and> session s' \<noteq> session s
            \<and> consoleLogs s' = consoleLogs s
            \<and> engineCalls s' = engineCalls s @
                 [Launch, NewPage (handle b), SetUserAgent p USER_AGENT, SetViewport p 1280 720,
                  OnConsole p]"
proof -
  from assms have "ensureBrowser e s = (Inr (), created e b p s)"
    by (simp add: ensureBrowser_absent createBrowserSession_ok)
  with assms(2,3) have "callTool e (Navigate url) s = (Inl (toolFailed urlError), created e b p s)"
    by (simp add: navigate_bad_scheme)
  with assms(1) show ?thesis
    by (simp add: toolFailed_def urlError_def created_def setupCalls_def)
qed

theorem navigate_bad_scheme_leaves_fresh_session_witness:
  "session initial = None
   \<and> \<not> startsWith ''example.com'' ''http://'' \<and> \<not> startsWith ''example.com'' ''https://''
   \<and> launch okEngine = Inr \<lparr>handle = 7, connected = True\<rparr> \<and> newPage okEngine = Inr 3
   \<and> setUserAgent okEngine = Inr () \<and> setViewport okEngine = Inr ()
   \<and> fst (callTool okEngine (Navigate ''example.com'') initial)
        = Inl (McpError InternalError ''Tool execution failed: ''
                 (Some (Error ''URL must start with http:// or https://'')))
   \<and> session (snd (callTool okEngine (Navigate ''example.com'') initial))
        = Some \<lparr>browser = \<lparr>handle = 7, connected = True\<rparr>, page = 3, lastActivity = 1000\<rparr>"
proof -
  have a: "session initial = None" by (simp add: initial_def)
  have b: "\<not> startsWith ''example.com'' ''http://''" by (simp add: startsWith_def)
  have c: "\<not> startsWith ''example.com'' ''https://''" by (simp add: startsWith_def)
  have d: "launch okEngine = Inr \<lparr>handle = 7, connected = True\<rparr>" by (simp add: okEngine_def)
  have f: "newPage okEngine = Inr 3" by (simp add: okEngine_def)
  have g: "setUserAgent okEngine = Inr ()" by (simp add: okEngine_def)
  have h: "setViewport okEngine = Inr ()" by (simp add: okEngine_def)
  have i: "createdAt okEngine = 1000" by (simp add: okEngine_def)
  from navigate_bad_scheme_leaves_fresh_session [OF a b c d f g h] a b c d f g h i
  show ?thesis by auto
qed

text \<open>
  C10. When \<open>ensureBrowser\<close> replaces a session whose browser is disconnected, the log
  buffer is left as it was and the browser's close is not invoked; the console-logs resource
  read afterwards shows the entries captured before.
\<close>

theorem ensureBrowser_recreation_keeps_logs:
  assumes "session s = Some ss" and "\<not> connected (browser ss)"
  shows "consoleLogs (snd (ensureBrowser e s)) = consoleLogs s
       \<and> (\<exists>new. engineCalls (snd (ensureBrowser e s)) = engineCalls s @ new
              \<and> (\<forall>h. BrowserClose h \<notin> set new))
       \<and> (fst (ensureBrowser e s) = Inr () \<longrightarrow>
            (\<exists>b p. launch e = Inr b \<and> newPage e = Inr p
                 \<and> session (snd (ensureBrowser e s))
                      = Some \<lparr>browser = b, page = p, lastActivity = createdAt e\<rparr>))
       \<and> fst (readResource e' ''puppeteer://console-logs'' (snd (ensureBrowser e s)))
            = Inr [\<lparr>uri = ''puppeteer://console-logs'', mimeType = ''text/plain'',
                     contentText = Plain (consoleLogsText (consoleLogs s))\<rparr>]"
proof -
  have logs: "consoleLogs (snd (ensureBrowser e s)) = consoleLogs s"
    using keepsLogs_ensureBrowser [of e] by (simp add: keepsLogs_def)
  from ensureBrowser_trace [of e s] obtain new
    where "engineCalls (snd (ensureBrowser e s)) = engineCalls s @ new" "list_all isSetup new"
    by blast
  then have tr: "\<exists>new. engineCalls (snd (ensureBrowser e s)) = engineCalls s @ new
              \<and> (\<forall>h. BrowserClose h \<notin> set new)"
    by (auto simp: isSetup_not_close)
  have fresh: "fst (ensureBrowser e s) = Inr () \<longrightarrow>
            (\<exists>b p. launch e = Inr b \<and> newPage e = Inr p
                 \<and> session (snd (ensureBrowser e s))
                      = Some \<lparr>browser = b, page = p, lastActivity = createdAt e\<rparr>)"
    using ensureBrowser_cases [of s e] assms by (auto simp: created_def)
  from logs tr fresh show ?thesis by (simp add: read_console_logs)
qed

theorem ensureBrowser_recreation_keeps_logs_witness:
  "map_option (connected \<circ> browser) (session staleServer) = Some False
   \<and> fst (ensureBrowser okEngine staleServer) = Inr ()
   \<and> session (snd (ensureBrowser okEngine staleServer))
        = Some \<lparr>browser = \<lparr>handle = 7, connected = True\<rparr>, page = 3, lastActivity = 1000\<rparr>
   \<and> consoleLogs (snd (ensureBrowser okEngine staleServer)) = [''[log] ready'', ''[error] boom'']"
proof -
  have a: "session staleServer = Some \<lparr>browser = \<lparr>handle = 5, connected = False\<rparr>, page = 2, lastActivity = 0\<rparr>"
    by (simp add: staleServer_def)
  have b: "\<not> connected (browser \<lparr>browser = \<lparr>handle = 5, connected = False\<rparr>, page = 2, lastActivity = 0\<rparr>)"
    by simp
  have c: "fst (ensureBrowser okEngine staleServer) = Inr ()"
    by (simp add: ensureBrowser_stale [OF a b] createBrowserSession_ok okEngine_def)
  have d: "launch okEngine = Inr \<lparr>handle = 7, connected = True\<rparr>" "newPage okEngine = Inr 3"
    "createdAt okEngine = 1000" "consoleLogs staleServer = [''[log] ready'', ''[error] boom'']"
    by (simp_all add: okEngine_def staleServer_def)
  from ensureBrowser_recreation_keeps_logs [OF a b, of okEngine okEngine] a c d
  show ?thesis by auto
qed

end
